theory Spec2Isabelle
  imports Main "HOL-Library.AList"
begin

section \<open>Python strings\<close>

text \<open>
  A Python \<open>str\<close> is modelled as a \<open>string\<close>; every character of the model is one code
  point below 256. The helpers below are the string methods that
  \<^verbatim>\<open>codebase_doctor.py\<close> calls.
\<close>

definition newline :: char where
  "newline = CHR 0x0A"

definition is_upper :: "char \<Rightarrow> bool" where
  "is_upper c =
     (let n = (of_char c :: nat) in (65 \<le> n \<and> n \<le> 90) \<or> (192 \<le> n \<and> n \<le> 222 \<and> n \<noteq> 215))"

definition lower_char :: "char \<Rightarrow> char" where
  "lower_char c = (if is_upper c then char_of ((of_char c :: nat) + 32) else c)"

definition lower :: "string \<Rightarrow> string" where
  "lower s = map lower_char s"

definition isspace :: "char \<Rightarrow> bool" where
  "isspace c = ((of_char c :: nat) \<in> set [9, 10, 11, 12, 13, 28, 29, 30, 31, 32, 133, 160])"

definition strip :: "string \<Rightarrow> string" where
  "strip s = rev (dropWhile isspace (rev (dropWhile isspace s)))"

definition startswith :: "string \<Rightarrow> string \<Rightarrow> bool" where
  "startswith s p = (take (length p) s = p)"

text \<open>
  \<open>s.split(sep)\<close> for a non-empty separator: the pieces between the non-overlapping
  occurrences of \<open>sep\<close>, found left to right. The counter is the number of characters of
  an occurrence that are still to be skipped.
\<close>

fun split_go :: "string \<Rightarrow> nat \<Rightarrow> string \<Rightarrow> string \<Rightarrow> string list" where
  "split_go sep k cur [] = [cur]"
| "split_go sep (Suc k) cur (c # cs) = split_go sep k cur cs"
| "split_go sep 0 cur (c # cs) =
     (if startswith (c # cs) sep then cur # split_go sep (length sep - 1) [] cs
      else split_go sep 0 (cur @ [c]) cs)"

definition split :: "string \<Rightarrow> string \<Rightarrow> string list" where
  "split s sep = split_go sep 0 [] s"

section \<open>Regular expressions\<close>

text \<open>
  The patterns of the program are run by the standard library's backtracking matcher.
  It is modelled for the constructs these patterns use: literals, \<open>.\<close>, \<open>\s\<close>, character
  sets, concatenation, alternation, greedy and lazy repetition, one capturing group,
  positive lookahead and \<open>$\<close>. A match state is the text still to be read and the text of
  group 1; the matcher returns all ways to match in the order in which backtracking tries
  them, so the first element is the match the library reports.
\<close>

datatype flag = IGNORECASE | DOTALL

datatype citem = One char | Range char char

datatype rx =
    Eps
  | Lit char
  | Dot
  | Space
  | Set "citem list"
  | NSet "citem list"
  | Seq rx rx
  | Alt rx rx
  | Star rx
  | LazyStar rx
  | Grp rx
  | Ahead rx
  | Eos

type_synonym mstate = "string \<times> string option"

fun in_item :: "char \<Rightarrow> citem \<Rightarrow> bool" where
  "in_item c (One d) = (c = d)"
| "in_item c (Range lo hi) = ((of_char lo :: nat) \<le> of_char c \<and> (of_char c :: nat) \<le> of_char hi)"

definition in_set :: "flag list \<Rightarrow> citem list \<Rightarrow> char \<Rightarrow> bool" where
  "in_set fl items c =
     (list_ex (in_item c) items \<or>
      (IGNORECASE \<in> set fl \<and> list_ex (in_item (lower_char c)) items))"

definition lit_eq :: "flag list \<Rightarrow> char \<Rightarrow> char \<Rightarrow> bool" where
  "lit_eq fl c d = (if IGNORECASE \<in> set fl then lower_char c = lower_char d else c = d)"

definition one_char :: "(char \<Rightarrow> bool) \<Rightarrow> mstate \<Rightarrow> mstate list" where
  "one_char p st = (case fst st of [] \<Rightarrow> [] | d # r \<Rightarrow> if p d then [(r, snd st)] else [])"

definition progress :: "mstate \<Rightarrow> mstate \<Rightarrow> bool" where
  "progress st st' = (length (fst st') < length (fst st))"

primrec greedy :: "nat \<Rightarrow> (mstate \<Rightarrow> mstate list) \<Rightarrow> mstate \<Rightarrow> mstate list" where
  "greedy 0 f st = [st]"
| "greedy (Suc n) f st = concat (map (greedy n f) (filter (progress st) (f st))) @ [st]"

primrec lazy :: "nat \<Rightarrow> (mstate \<Rightarrow> mstate list) \<Rightarrow> mstate \<Rightarrow> mstate list" where
  "lazy 0 f st = [st]"
| "lazy (Suc n) f st = st # concat (map (lazy n f) (filter (progress st) (f st)))"

primrec ms :: "flag list \<Rightarrow> rx \<Rightarrow> mstate \<Rightarrow> mstate list" where
  "ms fl Eps st = [st]"
| "ms fl (Lit c) st = one_char (lit_eq fl c) st"
| "ms fl Dot st = one_char (\<lambda>d. DOTALL \<in> set fl \<or> d \<noteq> newline) st"
| "ms fl Space st = one_char isspace st"
| "ms fl (Set items) st = one_char (in_set fl items) st"
| "ms fl (NSet items) st = one_char (\<lambda>d. \<not> in_set fl items d) st"
| "ms fl (Seq a b) st = concat (map (ms fl b) (ms fl a st))"
| "ms fl (Alt a b) st = ms fl a st @ ms fl b st"
| "ms fl (Star a) st = greedy (length (fst st)) (ms fl a) st"
| "ms fl (LazyStar a) st = lazy (length (fst st)) (ms fl a) st"
| "ms fl (Grp a) st =
     map (\<lambda>st'. (fst st', Some (take (length (fst st) - length (fst st')) (fst st)))) (ms fl a st)"
| "ms fl (Ahead a) st = (if ms fl a st = [] then [] else [st])"
| "ms fl Eos st = (if fst st = [] \<or> fst st = [newline] then [st] else [])"

definition Str :: "string \<Rightarrow> rx" where
  "Str s = foldr (\<lambda>c r. Seq (Lit c) r) s Eps"

definition Plus :: "rx \<Rightarrow> rx" where
  "Plus a = Seq a (Star a)"

definition Opt :: "rx \<Rightarrow> rx" where
  "Opt a = Alt a Eps"

fun Alts :: "rx list \<Rightarrow> rx" where
  "Alts [] = Set []"
| "Alts [r] = r"
| "Alts (r # rs) = Alt r (Alts rs)"

text \<open>
  \<open>re.search\<close>: the first match at the leftmost position that has one.
  \<open>re.findall\<close> for a pattern with one group: the group of every match, scanning left
  to right, each scan resuming where the previous match ended (one character further
  after an empty match). The counter is the number of characters of the last match that
  are still to be passed over.
\<close>

primrec re_search :: "flag list \<Rightarrow> rx \<Rightarrow> string \<Rightarrow> mstate option" where
  "re_search fl r [] = (case ms fl r ([], None) of [] \<Rightarrow> None | m # _ \<Rightarrow> Some m)"
| "re_search fl r (c # cs) =
     (case ms fl r (c # cs, None) of [] \<Rightarrow> re_search fl r cs | m # _ \<Rightarrow> Some m)"

definition group1 :: "mstate \<Rightarrow> string" where
  "group1 m = (case snd m of None \<Rightarrow> [] | Some g \<Rightarrow> g)"

fun findall_go :: "flag list \<Rightarrow> rx \<Rightarrow> nat \<Rightarrow> string \<Rightarrow> string list" where
  "findall_go fl r k [] =
     (if k = 0 then (case ms fl r ([], None) of [] \<Rightarrow> [] | m # _ \<Rightarrow> [group1 m]) else [])"
| "findall_go fl r (Suc k) (c # cs) = findall_go fl r k cs"
| "findall_go fl r 0 (c # cs) =
     (case ms fl r (c # cs, None) of
        [] \<Rightarrow> findall_go fl r 0 cs
      | m # _ \<Rightarrow> group1 m # findall_go fl r (length (c # cs) - length (fst m) - 1) cs)"

definition re_findall :: "flag list \<Rightarrow> rx \<Rightarrow> string \<Rightarrow> string list" where
  "re_findall fl r s = findall_go fl r 0 s"

definition Cat :: "rx list \<Rightarrow> rx" where
  "Cat rs = foldr Seq rs Eps"

definition word_chars :: "citem list" where
  "word_chars = [Range CHR ''A'' CHR ''Z'', Range CHR ''a'' CHR ''z'', Range CHR ''0'' CHR ''9'',
                 One CHR ''_'']"

definition squote :: char where
  "squote = CHR 0x27"

definition dquote :: char where
  "dquote = CHR 0x22"

section \<open>Errors and sampled files\<close>

text \<open>
  The instances of \<open>Exception\<close> that occur, and what a call can raise: an \<open>Exception\<close>,
  which \<open>except Exception\<close> catches, or another \<open>BaseException\<close> such as
  \<open>KeyboardInterrupt\<close> or \<open>SystemExit\<close>, which it does not catch.
\<close>

datatype exn = UnicodeDecodeError | AttributeError | Raised string

datatype raised = Exception exn | BaseException string

text \<open>An entry of \<open>self.file_patterns[ext]\<close>: \<open>{"path": ..., "content": ...}\<close>.\<close>

record sampled_file =
  path :: string
  content :: string

text \<open>
  \<open>list(set(xs))\<close> keeps one copy of every element. The order of the result is not
  fixed by Python; the model keeps the order of first occurrence, and the properties below
  speak of the set of elements only.
\<close>

definition list_set :: "string list \<Rightarrow> string list" where
  "list_set xs = remdups xs"

section \<open>Pattern extractors\<close>

text \<open>\<open>_extract_js_imports\<close>, pattern \<^verbatim>\<open>(?:import|require)\s*\(?['"]([^'"]*)['"]\)?\<close>.\<close>

definition js_import_pattern :: rx where
  "js_import_pattern =
     Cat [Alt (Str ''import'') (Str ''require''), Star Space, Opt (Lit CHR ''(''),
          Set [One squote, One dquote], Grp (Star (NSet [One squote, One dquote])),
          Set [One squote, One dquote], Opt (Lit CHR '')'')]"

definition extract_js_imports :: "sampled_file list \<Rightarrow> string list" where
  "extract_js_imports files =
     list_set (concat (map (\<lambda>file. re_findall [] js_import_pattern (content file)) files))"

text \<open>
  \<open>_extract_python_imports\<close>, patterns \<^verbatim>\<open>import\s+([A-Za-z0-9_.]+)\<close> and
  \<^verbatim>\<open>from\s+([A-Za-z0-9_.]+)\s+import\<close>, both run over every file.
\<close>

definition python_import_patterns :: "rx list" where
  "python_import_patterns =
     [Cat [Str ''import'', Plus Space, Grp (Plus (Set (word_chars @ [One CHR ''.''])))],
      Cat [Str ''from'', Plus Space, Grp (Plus (Set (word_chars @ [One CHR ''.'']))), Plus Space,
           Str ''import'']]"

definition extract_python_imports :: "sampled_file list \<Rightarrow> string list" where
  "extract_python_imports files =
     list_set (concat (map (\<lambda>file.
        concat (map (\<lambda>pattern. re_findall [] pattern (content file)) python_import_patterns))
        files))"

text \<open>\<open>_extract_python_classes\<close>, pattern \<^verbatim>\<open>class\s+([A-Za-z0-9_]+)(?:\([^)]*\))?:\<close>.\<close>

definition python_class_pattern :: rx where
  "python_class_pattern =
     Cat [Str ''class'', Plus Space, Grp (Plus (Set word_chars)),
          Opt (Cat [Lit CHR ''('', Star (NSet [One CHR '')'']), Lit CHR '')'']), Lit CHR '':'']"

definition extract_python_classes :: "sampled_file list \<Rightarrow> string list" where
  "extract_python_classes files =
     list_set (concat (map (\<lambda>file. re_findall [] python_class_pattern (content file)) files))"

text \<open>\<open>_extract_python_functions\<close>, pattern \<^verbatim>\<open>def\s+([A-Za-z0-9_]+)\s*\(\<close>.\<close>

definition python_function_pattern :: rx where
  "python_function_pattern =
     Cat [Str ''def'', Plus Space, Grp (Plus (Set word_chars)), Star Space, Lit CHR ''('']"

definition extract_python_functions :: "sampled_file list \<Rightarrow> string list" where
  "extract_python_functions files =
     list_set (concat (map (\<lambda>file. re_findall [] python_function_pattern (content file)) files))"

section \<open>The AI reply\<close>

text \<open>
  \<open>_parse_ai_analysis\<close>. Each of the five searches uses
  \<^verbatim>\<open># Name(.*?)(?=# Other1|# Other2|# Other3|# Other4|$)\<close> with \<open>re.DOTALL\<close>. A section is
  stored as \<open>match.group(1).strip()\<close>; \<open>group(1)\<close> of a group that took no part in the
  match is \<open>None\<close>, on which \<open>.strip()\<close> raises.
\<close>

definition section_pattern :: "string \<Rightarrow> string list \<Rightarrow> rx" where
  "section_pattern name others =
     Cat [Str name, Grp (LazyStar Dot), Ahead (Alts (map Str others @ [Eos]))]"

definition put_section ::
  "string \<Rightarrow> mstate option \<Rightarrow> (string \<rightharpoonup> string) \<Rightarrow> exn + (string \<rightharpoonup> string)" where
  "put_section key mtch sections =
     (case mtch of
        None \<Rightarrow> Inr sections
      | Some m \<Rightarrow> (case snd m of
                    None \<Rightarrow> Inl AttributeError
                  | Some g \<Rightarrow> Inr (sections(key \<mapsto> strip g))))"

definition and_then :: "exn + 'a \<Rightarrow> ('a \<Rightarrow> exn + 'b) \<Rightarrow> exn + 'b" where
  "and_then r f = (case r of Inl e \<Rightarrow> Inl e | Inr x \<Rightarrow> f x)"

definition parse_ai_analysis :: "string \<Rightarrow> exn + (string \<rightharpoonup> string)" where
  "parse_ai_analysis ai_analysis =
     (let overview_match = re_search [DOTALL] (section_pattern ''# Overview''
            [''# Patterns'', ''# Examples'', ''# Best Practices'', ''# Recommendations'']) ai_analysis;
          patterns_match = re_search [DOTALL] (section_pattern ''# Patterns''
            [''# Overview'', ''# Examples'', ''# Best Practices'', ''# Recommendations'']) ai_analysis;
          examples_match = re_search [DOTALL] (section_pattern ''# Examples''
            [''# Overview'', ''# Patterns'', ''# Best Practices'', ''# Recommendations'']) ai_analysis;
          best_practices_match = re_search [DOTALL] (section_pattern ''# Best Practices''
            [''# Overview'', ''# Patterns'', ''# Examples'', ''# Recommendations'']) ai_analysis;
          recommendations_match = re_search [DOTALL] (section_pattern ''# Recommendations''
            [''# Overview'', ''# Patterns'', ''# Examples'', ''# Best Practices'']) ai_analysis
      in and_then (put_section ''overview'' overview_match Map.empty) (\<lambda>s1.
         and_then (put_section ''patterns'' patterns_match s1) (\<lambda>s2.
         and_then (put_section ''examples'' examples_match s2) (\<lambda>s3.
         and_then (put_section ''best_practices'' best_practices_match s3) (\<lambda>s4.
         put_section ''recommendations'' recommendations_match s4)))))"

text \<open>
  \<open>ai_analysis\<close>. The prompt is built before the \<open>try\<close>, so whatever building it raises
  propagates. The request, the status check, the decoding of the reply and the parsing all
  sit in the \<open>try\<close>; \<open>api\<close> stands for the first three: it gives the reply text or what
  was raised. \<open>except Exception\<close> returns the literal dictionary of the source; another
  \<open>BaseException\<close> propagates.
\<close>

definition ai_analysis ::
  "(string \<Rightarrow> raised + string) \<Rightarrow> raised + string \<Rightarrow> raised + (string \<rightharpoonup> string)" where
  "ai_analysis api generated_prompt =
     (case generated_prompt of
        Inl r \<Rightarrow> Inl r
      | Inr prompt \<Rightarrow>
          (case (case api prompt of
                   Inl r \<Rightarrow> Inl r
                 | Inr text \<Rightarrow> (case parse_ai_analysis text of
                                 Inl e \<Rightarrow> Inl (Exception e)
                               | Inr analysis_sections \<Rightarrow> Inr analysis_sections)) of
             Inr analysis_sections \<Rightarrow> Inr analysis_sections
           | Inl (BaseException b) \<Rightarrow> Inl (BaseException b)
           | Inl (Exception e) \<Rightarrow>
               Inr [''overview'' \<mapsto> ''Error during AI analysis'',
                    ''patterns'' \<mapsto> ''Error during AI analysis'',
                    ''recommendations'' \<mapsto> ''Error during AI analysis'',
                    ''examples'' \<mapsto> ''Error during AI analysis'']))"

section \<open>The repository on disk\<close>

text \<open>
  What \<open>scan_repo\<close> can observe of a file: its name, \<open>os.path.getsize\<close>, whether reading
  its first 1024 characters as UTF-8 succeeds (\<open>_is_binary_file\<close> returns \<open>False\<close> then), and
  the result of reading all of it as UTF-8 (\<open>None\<close> when that raises
  \<open>UnicodeDecodeError\<close>). Every file can be opened: no other exception is modelled. A
  directory lists its files and its subdirectories in the order in which \<open>os.walk\<close>
  reports them.
\<close>

record repo_file =
  name :: string
  getsize :: nat
  head_decodes :: bool
  decoded :: "string option"

datatype dir = Dir "repo_file list" "(string \<times> dir) list"

text \<open>
  \<open>os.walk\<close>, top down: a directory is reported with its files before its
  subdirectories are entered, and only the subdirectories that the loop body keeps in
  \<open>dirs\<close> are entered. The root is the list of directory names below the repository.
\<close>

fun os_walk :: "(string \<Rightarrow> bool) \<Rightarrow> string list \<Rightarrow> dir \<Rightarrow> (string list \<times> repo_file list) list"
  and os_walk_dirs ::
    "(string \<Rightarrow> bool) \<Rightarrow> string list \<Rightarrow> (string \<times> dir) list \<Rightarrow> (string list \<times> repo_file list) list"
where
  "os_walk keep root (Dir fs ds) = (root, fs) # os_walk_dirs keep root ds"
| "os_walk_dirs keep root [] = []"
| "os_walk_dirs keep root ((d, sub) # ds) =
     (if keep d then os_walk keep (root @ [d]) sub else []) @ os_walk_dirs keep root ds"

text \<open>\<open>os.path.relpath(os.path.join(root, file), self.repo_path)\<close>.\<close>

definition rel_path :: "string list \<Rightarrow> string \<Rightarrow> string" where
  "rel_path root file = foldr (\<lambda>d p. d @ ''/'' @ p) root file"

text \<open>
  \<open>os.path.splitext\<close> of a bare file name: the extension starts at the last dot, unless
  only dots precede it.
\<close>

definition splitext :: "string \<Rightarrow> string \<times> string" where
  "splitext p =
     (case dropWhile (\<lambda>c. c \<noteq> CHR ''.'') (rev p) of
        [] \<Rightarrow> (p, [])
      | dot # stem \<Rightarrow>
          if list_ex (\<lambda>c. c \<noteq> CHR ''.'') stem
          then (take (length stem) p, drop (length stem) p)
          else (p, []))"

definition is_binary_file :: "repo_file \<Rightarrow> bool" where
  "is_binary_file f = (\<not> head_decodes f)"

section \<open>The analyzer\<close>

text \<open>An entry of \<open>self.file_data\<close>: \<open>{"path": ..., "type": ..., "size": ...}\<close>.\<close>

record file_info =
  info_path :: string
  info_type :: string
  info_size :: nat

text \<open>
  The fields of \<open>CodebaseAnalyzer\<close> that the scan reads and writes. The three dictionaries
  are association lists in insertion order; \<open>file_patterns\<close> and \<open>stats\<close> are
  \<open>defaultdict\<close>s.
\<close>

record analyzer =
  max_files_per_type :: nat
  excluded_dirs :: "string list"
  file_data :: "(string \<times> file_info) list"
  file_patterns :: "(string \<times> sampled_file list) list"
  stats :: "(string \<times> nat) list"

text \<open>\<open>__init__\<close>.\<close>

definition new_analyzer :: analyzer where
  "new_analyzer =
     \<lparr>max_files_per_type = 25,
      excluded_dirs = [''.git'', ''node_modules'', ''__pycache__'', ''venv'', ''dist'', ''build''],
      file_data = [], file_patterns = [], stats = []\<rparr>"

text \<open>
  Reading \<open>d[k]\<close> from a \<open>defaultdict\<close> gives the default for a missing key and stores it
  under that key; \<open>d[k] += 1\<close> reads, adds and stores.
\<close>

definition dd_get :: "'v \<Rightarrow> (string \<times> 'v) list \<Rightarrow> string \<Rightarrow> 'v" where
  "dd_get dflt d k = (case map_of d k of None \<Rightarrow> dflt | Some v \<Rightarrow> v)"

definition dd_touch :: "'v \<Rightarrow> (string \<times> 'v) list \<Rightarrow> string \<Rightarrow> (string \<times> 'v) list" where
  "dd_touch dflt d k = (case map_of d k of None \<Rightarrow> d @ [(k, dflt)] | Some v \<Rightarrow> d)"

definition incr :: "string \<Rightarrow> (string \<times> nat) list \<Rightarrow> (string \<times> nat) list" where
  "incr k d = AList.update k (dd_get 0 d k + 1) d"

definition file_ext :: "string \<Rightarrow> string" where
  "file_ext file =
     (let ext = snd (splitext file) in if ext \<noteq> [] then drop 1 (lower ext) else ''no_extension'')"

text \<open>The body of the inner loop of \<open>scan_repo\<close>, for one file of the directory \<open>root\<close>.\<close>

definition scan_file :: "string list \<Rightarrow> analyzer \<Rightarrow> repo_file \<Rightarrow> analyzer" where
  "scan_file root self f =
     (if is_binary_file f \<or> getsize f > 1000000 then self
      else
        let rel = rel_path root (name f);
            ext = file_ext (name f);
            self1 = self\<lparr>stats := incr ''total_files'' (stats self)\<rparr>;
            self2 = self1\<lparr>stats := incr (''files_by_type_'' @ ext) (stats self1)\<rparr>;
            self3 = self2\<lparr>file_data := AList.update rel
                       \<lparr>info_path = rel, info_type = ext, info_size = getsize f\<rparr> (file_data self2)\<rparr>;
            self4 = self3\<lparr>file_patterns := dd_touch [] (file_patterns self3) ext\<rparr>
        in if length (dd_get [] (file_patterns self4) ext) < max_files_per_type self4
           then (case decoded f of
                   Some text \<Rightarrow>
                     self4\<lparr>file_patterns := AList.update ext
                        (dd_get [] (file_patterns self4) ext @
                           [\<lparr>path = rel, content = take 100000 text\<rparr>])
                        (file_patterns self4)\<rparr>
                 | None \<Rightarrow> self4)
           else self4)"

text \<open>
  \<open>scan_repo\<close>: the two loops, then the closing log line, which reads
  \<open>self.stats['total_files']\<close> and so stores 0 under that key when no file was counted.
\<close>

definition scan_repo :: "analyzer \<Rightarrow> dir \<Rightarrow> analyzer" where
  "scan_repo self repo =
     (let self1 = foldl (\<lambda>self1 (root, files). foldl (scan_file root) self1 files) self
                    (os_walk (\<lambda>d. d \<notin> set (excluded_dirs self)) [] repo)
      in self1\<lparr>stats := dd_touch 0 (stats self1) ''total_files''\<rparr>)"

section \<open>Entry points\<close>

text \<open>
  \<open>_identify_entry_points\<close>. The four pattern lists, each pattern of the form
  \<^verbatim>\<open>(alternative|alternative|...)$\<close>, searched with \<open>re.IGNORECASE\<close>.
\<close>

definition suffix_pattern :: "rx list \<Rightarrow> rx" where
  "suffix_pattern alternatives = Cat [Grp (Alts alternatives), Eos]"

definition backend_patterns :: "rx list" where
  "backend_patterns =
     [suffix_pattern [Str ''app.py'', Str ''server.py'', Str ''main.py'', Str ''index.py'',
                      Str ''application.py''],
      suffix_pattern [Str ''app.js'', Str ''server.js'', Str ''index.js'', Str ''main.js''],
      suffix_pattern [Str ''app.ts'', Str ''server.ts'', Str ''index.ts'', Str ''main.ts''],
      suffix_pattern [Str ''Program.cs'', Str ''Startup.cs'']]"

definition frontend_patterns :: "rx list" where
  "frontend_patterns =
     [suffix_pattern [Str ''index.html''],
      suffix_pattern [Cat [Str ''index.js'', Opt (Lit CHR ''x'')], Cat [Str ''App.js'', Opt (Lit CHR ''x'')],
                      Cat [Str ''main.js'', Opt (Lit CHR ''x'')]],
      suffix_pattern [Cat [Str ''index.ts'', Opt (Lit CHR ''x'')], Cat [Str ''App.ts'', Opt (Lit CHR ''x'')],
                      Cat [Str ''main.ts'', Opt (Lit CHR ''x'')]]]"

definition cli_patterns :: "rx list" where
  "cli_patterns =
     [suffix_pattern [Str ''cli.py'', Str ''__main__.py'', Cat [Str ''bin/'', Plus Dot]],
      suffix_pattern [Str ''cli.js'', Cat [Str ''bin/'', Plus Dot, Str ''.js'']]]"

definition config_patterns :: "rx list" where
  "config_patterns =
     [suffix_pattern [Cat [Str ''config.'', Plus Dot], Cat [Plus Dot, Str ''.config.'', Plus Dot]],
      suffix_pattern [Str ''package.json'', Str ''tsconfig.json'', Str ''poetry.toml'',
                      Str ''pyproject.toml''],
      suffix_pattern [Str ''Dockerfile'', Str ''docker-compose.yml''],
      suffix_pattern [Cat [Plus Dot, Str ''.yaml''], Cat [Plus Dot, Str ''.yml'']]]"

text \<open>
  The loop \<open>for pattern in patterns: if re.search(...): append; break\<close>: whether the
  path is appended, which happens at the first pattern that matches.
\<close>

primrec first_match :: "rx list \<Rightarrow> string \<Rightarrow> bool" where
  "first_match [] file_path = False"
| "first_match (pattern # patterns) file_path =
     (if re_search [IGNORECASE] pattern file_path \<noteq> None then True
      else first_match patterns file_path)"

text \<open>\<open>entry_points[category].append(file_path)\<close>.\<close>

definition append_to ::
  "string \<Rightarrow> string \<Rightarrow> (string \<times> string list) list \<Rightarrow> (string \<times> string list) list" where
  "append_to category file_path entry_points =
     AList.map_entry category (\<lambda>paths. paths @ [file_path]) entry_points"

definition classify :: "(string \<times> string list) list \<Rightarrow> string \<Rightarrow> (string \<times> string list) list" where
  "classify entry_points file_path =
     (let ep1 = (if first_match backend_patterns file_path
                 then append_to ''backend'' file_path entry_points else entry_points);
          ep2 = (if first_match frontend_patterns file_path
                 then append_to ''frontend'' file_path ep1 else ep1);
          ep3 = (if first_match cli_patterns file_path
                 then append_to ''cli'' file_path ep2 else ep2)
      in if first_match config_patterns file_path
         then append_to ''config'' file_path ep3 else ep3)"

definition identify_entry_points :: "analyzer \<Rightarrow> (string \<times> string list) list" where
  "identify_entry_points self =
     filter (\<lambda>(k, v). v \<noteq> [])
       (foldl classify [(''backend'', []), (''frontend'', []), (''cli'', []), (''config'', [])]
          (map fst (file_data self)))"

section \<open>Dependencies\<close>

text \<open>
  What \<open>open(os.path.join(self.repo_path, file), 'r', encoding='utf-8').read()\<close>
  gives for a name in the root of the repository: nothing when \<open>os.path.exists\<close> is
  false, the text of the file, or the exception raised (the content does not decode, or
  the name is a directory).
\<close>

fun open_text :: "dir \<Rightarrow> string \<Rightarrow> (exn + string) option" where
  "open_text (Dir fs ds) file =
     (case find (\<lambda>f. name f = file) fs of
        Some f \<Rightarrow> (case decoded f of
                     None \<Rightarrow> Some (Inl UnicodeDecodeError)
                   | Some text \<Rightarrow> Some (Inr text))
      | None \<Rightarrow> if file \<in> set (map fst ds) then Some (Inl (Raised ''IsADirectoryError''))
                else None)"

text \<open>
  The value that \<open>json.load\<close> returns for \<open>package.json\<close>, for the shape the program
  relies on: an object whose sections \<open>dependencies\<close> and \<open>devDependencies\<close>, when
  present, are objects. \<open>json.load\<close> itself is a parameter of the model: it gives this
  value, or the exception with which loading or the dictionary operations fail.
\<close>

record package_data =
  dependencies :: "(string \<times> string) list option"
  devDependencies :: "(string \<times> string) list option"

text \<open>\<open>d.update(other)\<close>, \<open>d.get(k, default)\<close> and \<open>d[eco][pkg] = n\<close>.\<close>

definition dict_update :: "(string \<times> 'v) list \<Rightarrow> (string \<times> 'v) list \<Rightarrow> (string \<times> 'v) list" where
  "dict_update d other = foldl (\<lambda>d1 (k, v). AList.update k v d1) d other"

definition dict_get :: "(string \<times> 'v) list \<Rightarrow> string \<Rightarrow> 'v \<Rightarrow> 'v" where
  "dict_get d k dflt = (case map_of d k of None \<Rightarrow> dflt | Some v \<Rightarrow> v)"

type_synonym dep_table = "(string \<times> (string \<times> nat) list) list"

definition set_count :: "string \<Rightarrow> string \<Rightarrow> nat \<Rightarrow> dep_table \<Rightarrow> dep_table" where
  "set_count eco pkg n deps = AList.map_entry eco (AList.update pkg n) deps"

text \<open>\<open>dependencies[eco][pkg] = dependencies[eco].get(pkg, 0) + 1\<close>.\<close>

definition bump :: "string \<Rightarrow> string \<Rightarrow> dep_table \<Rightarrow> dep_table" where
  "bump eco pkg deps = set_count eco pkg (dict_get (dict_get deps eco []) pkg 0 + 1) deps"

text \<open>The block for \<open>package.json\<close>; every exception inside it is caught.\<close>

definition javascript_manifest :: "(string \<Rightarrow> exn + package_data) \<Rightarrow> dir \<Rightarrow> dep_table \<Rightarrow> dep_table" where
  "javascript_manifest json_load repo deps0 =
     (case open_text repo ''package.json'' of
        None \<Rightarrow> deps0
      | Some (Inl e) \<Rightarrow> deps0
      | Some (Inr text) \<Rightarrow>
          (case json_load text of
             Inl e \<Rightarrow> deps0
           | Inr package_data \<Rightarrow>
               let deps1 = (case dependencies package_data of
                              None \<Rightarrow> [] | Some ds \<Rightarrow> dict_update [] ds);
                   deps2 = (case devDependencies package_data of
                              None \<Rightarrow> deps1 | Some ds \<Rightarrow> dict_update deps1 ds)
               in foldl (\<lambda>acc (dep, version). set_count ''javascript'' dep 1 acc) deps0 deps2))"

text \<open>The loop over the candidate requirement files; only \<open>requirements.txt\<close> is parsed.\<close>

definition requirement_line :: "dep_table \<Rightarrow> string \<Rightarrow> dep_table" where
  "requirement_line deps0 line =
     (if strip line \<noteq> [] \<and> \<not> startswith line ''#''
      then bump ''python'' (strip (hd (split (hd (split line ''=='')) ''>=''))) deps0
      else deps0)"

definition python_req_files :: "string list" where
  "python_req_files = [''requirements.txt'', ''Pipfile'', ''pyproject.toml'', ''setup.py'']"

definition python_manifest :: "dir \<Rightarrow> dep_table \<Rightarrow> string \<Rightarrow> dep_table" where
  "python_manifest repo deps0 req_file =
     (case open_text repo req_file of
        None \<Rightarrow> deps0
      | Some (Inl e) \<Rightarrow> deps0
      | Some (Inr text) \<Rightarrow>
          if req_file = ''requirements.txt''
          then foldl requirement_line deps0 (split text [newline])
          else deps0)"

text \<open>The loop over \<open>self.file_patterns.items()\<close> that counts the imports of the samples.\<close>

definition javascript_imports :: "dep_table \<Rightarrow> sampled_file \<Rightarrow> dep_table" where
  "javascript_imports deps0 file =
     foldl (\<lambda>acc imp.
        if \<not> startswith imp ''.'' \<and> \<not> startswith imp ''/''
        then bump ''javascript'' (hd (split imp ''/'')) acc else acc)
       deps0 (extract_js_imports [file])"

definition python_imports :: "dep_table \<Rightarrow> sampled_file \<Rightarrow> dep_table" where
  "python_imports deps0 file =
     foldl (\<lambda>acc imp. bump ''python'' (hd (split imp ''.'')) acc) deps0 (extract_python_imports [file])"

definition count_imports :: "dep_table \<Rightarrow> string \<times> sampled_file list \<Rightarrow> dep_table" where
  "count_imports deps0 item =
     (if fst item \<in> set [''js'', ''jsx'', ''ts'', ''tsx''] then foldl javascript_imports deps0 (snd item)
      else if fst item \<in> set [''py''] then foldl python_imports deps0 (snd item)
      else deps0)"

definition identify_dependencies ::
  "(string \<Rightarrow> exn + package_data) \<Rightarrow> dir \<Rightarrow> analyzer \<Rightarrow> dep_table" where
  "identify_dependencies json_load repo self =
     (let deps0 = [(''javascript'', []), (''python'', []), (''java'', []), (''go'', [])];
          deps1 = javascript_manifest json_load repo deps0;
          deps2 = foldl (python_manifest repo) deps1 python_req_files;
          deps3 = foldl count_imports deps2 (file_patterns self)
      in filter (\<lambda>(k, v). v \<noteq> []) deps3)"

section \<open>Notions used to state the properties of the scan\<close>

text \<open>
  The files in the order in which \<open>scan_repo\<close> meets them, each with the directory it is
  in, when the directories named in \<open>excluded\<close> are pruned.
\<close>

definition walked :: "string list \<Rightarrow> dir \<Rightarrow> (string list \<times> repo_file) list" where
  "walked excluded repo =
     concat (map (\<lambda>(root, files). map (Pair root) files)
       (os_walk (\<lambda>d. d \<notin> set excluded) [] repo))"

text \<open>The files that the first test of the loop body lets through.\<close>

definition skipped :: "repo_file \<Rightarrow> bool" where
  "skipped f = (is_binary_file f \<or> getsize f > 1000000)"

text \<open>The repository without its files of more than 1,000,000 bytes.\<close>

fun without_oversized :: "dir \<Rightarrow> dir"
  and without_oversized_dirs :: "(string \<times> dir) list \<Rightarrow> (string \<times> dir) list"
where
  "without_oversized (Dir fs ds) =
     Dir (filter (\<lambda>f. getsize f \<le> 1000000) fs) (without_oversized_dirs ds)"
| "without_oversized_dirs [] = []"
| "without_oversized_dirs ((d, sub) # ds) = (d, without_oversized sub) # without_oversized_dirs ds"

text \<open>One step of the scan, on a walked file.\<close>

definition scan_step :: "analyzer \<Rightarrow> string list \<times> repo_file \<Rightarrow> analyzer" where
  "scan_step self rf = scan_file (fst rf) self (snd rf)"

text \<open>The relative path of a walked file, and the walked files that get a record.\<close>

definition path_of :: "string list \<times> repo_file \<Rightarrow> string" where
  "path_of rf = rel_path (fst rf) (name (snd rf))"

definition recorded :: "(string list \<times> repo_file) list \<Rightarrow> (string list \<times> repo_file) list" where
  "recorded ws = filter (\<lambda>rf. \<not> skipped (snd rf)) ws"

text \<open>The sample list of an extension and the value of a counter, absent keys read as empty and 0.\<close>

definition samples_of :: "analyzer \<Rightarrow> string \<Rightarrow> sampled_file list" where
  "samples_of self ext = dd_get [] (file_patterns self) ext"

definition count_of :: "analyzer \<Rightarrow> string \<Rightarrow> nat" where
  "count_of self key = dd_get 0 (stats self) key"

text \<open>
  The sample that a walked file yields when there is room for it: none for a skipped file
  or for one whose content does not decode.
\<close>

definition sample_of :: "string list \<times> repo_file \<Rightarrow> sampled_file option" where
  "sample_of rf =
     (if skipped (snd rf) then None
      else map_option (\<lambda>text. \<lparr>path = rel_path (fst rf) (name (snd rf)), content = take 100000 text\<rparr>)
             (decoded (snd rf)))"

definition has_ext :: "string \<Rightarrow> string list \<times> repo_file \<Rightarrow> bool" where
  "has_ext ext rf = (file_ext (name (snd rf)) = ext)"

definition sampleable :: "string \<Rightarrow> (string list \<times> repo_file) list \<Rightarrow> sampled_file list" where
  "sampleable ext ws = List.map_filter sample_of (filter (has_ext ext) ws)"

text \<open>How much one walked file adds to the counter \<open>key\<close>.\<close>

definition tally :: "string \<Rightarrow> string list \<times> repo_file \<Rightarrow> nat" where
  "tally key rf =
     (if skipped (snd rf) then 0
      else (if key = ''total_files'' then 1 else 0)
         + (if key = ''files_by_type_'' @ file_ext (name (snd rf)) then 1 else 0))"

text \<open>The entry of a category in a result that omits the empty lists.\<close>

definition present :: "string list \<Rightarrow> string list option" where
  "present paths = (if paths = [] then None else Some paths)"

section \<open>Scenarios\<close>

text \<open>The two sampled Python files of the extraction scenario.\<close>

definition scenario_py_files :: "sampled_file list" where
  "scenario_py_files =
     [\<lparr>path = ''a.py'',
       content = ''import os'' @ [newline] @ ''class Foo:'' @ [newline] @ ''    def bar(self): pass''\<rparr>,
      \<lparr>path = ''b.py'', content = ''from collections import defaultdict''\<rparr>]"

text \<open>
  A small repository: a Python file, a Python file of more than 1,000,000 bytes, a Python
  file whose head decodes but whose full content does not, a binary file, an excluded
  directory and a source directory.
\<close>

definition text_file :: "string \<Rightarrow> string \<Rightarrow> repo_file" where
  "text_file n c = \<lparr>name = n, getsize = length c, head_decodes = True, decoded = Some c\<rparr>"

definition big_py :: repo_file where
  "big_py = \<lparr>name = ''big.py'', getsize = 1000001, head_decodes = True, decoded = Some ''x = 1''\<rparr>"

definition latin_py :: repo_file where
  "latin_py = \<lparr>name = ''latin.py'', getsize = 9000, head_decodes = True, decoded = None\<rparr>"

definition logo_png :: repo_file where
  "logo_png = \<lparr>name = ''logo.png'', getsize = 2048, head_decodes = False, decoded = None\<rparr>"

definition example_repo :: dir where
  "example_repo =
     Dir [text_file ''a.py'' ''import os'', big_py, latin_py, logo_png]
         [(''node_modules'', Dir [text_file ''z.js'' ''x''] []),
          (''src'', Dir [text_file ''Main.PY'' ''pass''] [])]"

text \<open>
  A directory of 26 Python files; the content of the first one does not decode.
\<close>

definition cap_names :: "string list" where
  "cap_names =
          [''f01.py'', ''f02.py'', ''f03.py'', ''f04.py'', ''f05.py'', ''f06.py'',
           ''f07.py'', ''f08.py'', ''f09.py'', ''f10.py'', ''f11.py'', ''f12.py'',
           ''f13.py'', ''f14.py'', ''f15.py'', ''f16.py'', ''f17.py'', ''f18.py'',
           ''f19.py'', ''f20.py'', ''f21.py'', ''f22.py'', ''f23.py'', ''f24.py'',
           ''f25.py'']"

definition cap_repo :: dir where
  "cap_repo =
     Dir (\<lparr>name = ''f00.py'', getsize = 9000, head_decodes = True, decoded = None\<rparr> #
          map (\<lambda>n. text_file n ''pass'') cap_names) []"

text \<open>The walked files of an extension, by path: the files of that extension that the scan meets.\<close>

definition encountered :: "string \<Rightarrow> dir \<Rightarrow> string list" where
  "encountered ext repo =
     map path_of (filter (has_ext ext) (walked (excluded_dirs new_analyzer) repo))"

text \<open>A repository with a backend entry point, a configuration file, a note and an image.\<close>

definition web_repo :: dir where
  "web_repo =
     Dir [text_file ''a.md'' ''# web'', text_file ''b.yml'' ''on: push'', logo_png]
         [(''src'', Dir [text_file ''App.PY'' ''import os''] [])]"

text \<open>
  The repository of the dependency scenario: a \<open>package.json\<close> with the text
  \<^verbatim>\<open>{"dependencies":{"react":"^18.0.0"}}\<close> and one source file \<open>index.<ext>\<close> with the line
  \<^verbatim>\<open>import "react-dom"\<close>; the value that \<open>json.load\<close> returns for that manifest; and a
  loader that knows this manifest only.
\<close>

definition quoted :: "string \<Rightarrow> string" where
  "quoted s = [dquote] @ s @ [dquote]"

definition react_manifest_text :: string where
  "react_manifest_text =
     ''{'' @ quoted ''dependencies'' @ '':{'' @ quoted ''react'' @ '':'' @ quoted ''^18.0.0'' @ ''}}''"

definition react_manifest :: package_data where
  "react_manifest = \<lparr>dependencies = Some [(''react'', ''^18.0.0'')], devDependencies = None\<rparr>"

definition react_source :: string where
  "react_source = ''import '' @ quoted ''react-dom''"

definition react_repo :: "string \<Rightarrow> dir" where
  "react_repo ext =
     Dir [text_file ''package.json'' react_manifest_text,
          text_file (''index.'' @ ext) react_source] []"

definition react_json_load :: "string \<Rightarrow> exn + package_data" where
  "react_json_load text =
     (if text = react_manifest_text then Inr react_manifest else Inl (Raised ''JSONDecodeError''))"

text \<open>
  A Python project with a \<open>requirements.txt\<close>, a \<open>Pipfile\<close> and a \<open>setup.py\<close>, and the
  same project with the \<open>requirements.txt\<close> alone.
\<close>

definition requirements_text :: string where
  "requirements_text =
     ''flask==2.0'' @ [newline] @ ''# pinned'' @ [newline] @ ''requests>=2'' @ [newline]"

definition requirements_txt :: repo_file where
  "requirements_txt = text_file ''requirements.txt'' requirements_text"

definition py_repo :: dir where
  "py_repo =
     Dir [requirements_txt, text_file ''Pipfile'' ''django = 1'',
          text_file ''setup.py'' ''install_requires = numpy''] []"

definition py_repo_bare :: dir where
  "py_repo_bare = Dir [requirements_txt] []"

text \<open>The project with the \<open>requirements.txt\<close> and a \<open>setup.py\<close> that imports \<open>setuptools\<close>.\<close>

definition setup_py_text :: string where
  "setup_py_text = ''from setuptools import setup''"

definition setup_repo :: dir where
  "setup_repo = Dir [requirements_txt, text_file ''setup.py'' setup_py_text] []"

section \<open>Properties of the AI reply handling\<close>

lemma re_search_from_ms: "re_search fl r s = Some m \<Longrightarrow> \<exists>st. m \<in> set (ms fl r st)"
proof (induction s)
  case Nil
  then have "m \<in> set (ms fl r ([], None))"
    by (auto split: list.splits)
  then show ?case by blast
next
  case (Cons c cs)
  show ?case
  proof (cases "ms fl r (c # cs, None)")
    case Nil
    with Cons show ?thesis by simp
  next
    case (Cons m' ms')
    with Cons.prems have "m = m'" by simp
    with Cons have "m \<in> set (ms fl r (c # cs, None))" by simp
    then show ?thesis by blast
  qed
qed

lemma ms_Seq_iff:
  "m \<in> set (ms fl (Seq a b) st) \<longleftrightarrow> (\<exists>x \<in> set (ms fl a st). m \<in> set (ms fl b x))"
  by simp

lemma ms_Grp_some: "m \<in> set (ms fl (Grp a) st) \<Longrightarrow> snd m \<noteq> None"
  by auto

lemma ms_Ahead_same: "m \<in> set (ms fl (Ahead a) st) \<Longrightarrow> m = st"
  by (simp split: if_splits)

lemma section_pattern_group:
  assumes "m \<in> set (ms fl (section_pattern hdr others) st)"
  shows "snd m \<noteq> None"
proof -
  have "section_pattern hdr others =
      Seq (Str hdr) (Seq (Grp (LazyStar Dot)) (Seq (Ahead (Alts (map Str others @ [Eos]))) Eps))"
    by (simp add: section_pattern_def Cat_def)
  with assms obtain st1 st2 st3 where
    g: "st2 \<in> set (ms fl (Grp (LazyStar Dot)) st1)" and
    a: "st3 \<in> set (ms fl (Ahead (Alts (map Str others @ [Eos]))) st2)" and
    e: "m \<in> set (ms fl Eps st3)"
    by (simp only: ms_Seq_iff) blast
  from e have "m = st3" by simp
  with a have "m = st2" using ms_Ahead_same by blast
  with g show ?thesis using ms_Grp_some by blast
qed

lemma put_section_found:
  "\<exists>s'. put_section key (re_search fl (section_pattern hdr others) text) s = Inr s'
        \<and> dom s' \<subseteq> insert key (dom s)"
proof (cases "re_search fl (section_pattern hdr others) text")
  case None
  then show ?thesis by (auto simp: put_section_def)
next
  case (Some m)
  then have "snd m \<noteq> None"
    using re_search_from_ms section_pattern_group by blast
  with Some show ?thesis by (auto simp: put_section_def)
qed

lemma dom_chain5:
  "d1 \<subseteq> insert k1 {} \<Longrightarrow> d2 \<subseteq> insert k2 d1 \<Longrightarrow> d3 \<subseteq> insert k3 d2 \<Longrightarrow>
   d4 \<subseteq> insert k4 d3 \<Longrightarrow> d5 \<subseteq> insert k5 d4 \<Longrightarrow> d5 \<subseteq> {k1, k2, k3, k4, k5}"
  by blast

lemma card_five: "card {k1, k2, k3, k4, k5} \<le> 5"
  by (simp add: card_insert_if)

text \<open>
  Claim C3. For every reply text, \<open>_parse_ai_analysis\<close> returns a dictionary (no step of
  it raises), and the keys of that dictionary are among the five section keys, so there
  are between 0 and 5 of them.
\<close>

theorem parse_ai_analysis_total:
  "\<exists>sections. parse_ai_analysis text = Inr sections
     \<and> dom sections \<subseteq> {''overview'', ''patterns'', ''examples'', ''best_practices'', ''recommendations''}
     \<and> card (dom sections) \<le> 5"
proof -
  let ?K = "{''overview'', ''patterns'', ''examples'', ''best_practices'', ''recommendations''}"
  obtain s1 where s1: "put_section ''overview'' (re_search [DOTALL] (section_pattern ''# Overview''
            [''# Patterns'', ''# Examples'', ''# Best Practices'', ''# Recommendations'']) text) Map.empty = Inr s1"
     "dom s1 \<subseteq> insert ''overview'' (dom (Map.empty :: string \<rightharpoonup> string))"
    using put_section_found by blast
  obtain s2 where s2: "put_section ''patterns'' (re_search [DOTALL] (section_pattern ''# Patterns''
            [''# Overview'', ''# Examples'', ''# Best Practices'', ''# Recommendations'']) text) s1 = Inr s2"
     "dom s2 \<subseteq> insert ''patterns'' (dom s1)"
    using put_section_found by blast
  obtain s3 where s3: "put_section ''examples'' (re_search [DOTALL] (section_pattern ''# Examples''
            [''# Overview'', ''# Patterns'', ''# Best Practices'', ''# Recommendations'']) text) s2 = Inr s3"
     "dom s3 \<subseteq> insert ''examples'' (dom s2)"
    using put_section_found by blast
  obtain s4 where s4: "put_section ''best_practices'' (re_search [DOTALL] (section_pattern ''# Best Practices''
            [''# Overview'', ''# Patterns'', ''# Examples'', ''# Recommendations'']) text) s3 = Inr s4"
     "dom s4 \<subseteq> insert ''best_practices'' (dom s3)"
    using put_section_found by blast
  obtain s5 where s5: "put_section ''recommendations'' (re_search [DOTALL] (section_pattern ''# Recommendations''
            [''# Overview'', ''# Patterns'', ''# Examples'', ''# Best Practices'']) text) s4 = Inr s5"
     "dom s5 \<subseteq> insert ''recommendations'' (dom s4)"
    using put_section_found by blast
  have p: "parse_ai_analysis text = Inr s5"
    by (simp add: parse_ai_analysis_def and_then_def s1(1) s2(1) s3(1) s4(1) s5(1))
  have d: "dom s5 \<subseteq> ?K"
    using s1(2) s2(2) s3(2) s4(2) s5(2) unfolding dom_empty by (rule dom_chain5)
  have "card (dom s5) \<le> card ?K"
    using d by (rule card_mono [rotated]) (rule finite.intros)+
  also have "card ?K \<le> 5"
    by (rule card_five)
  finally have c: "card (dom s5) \<le> 5" .
  show ?thesis
    by (rule exI [of _ s5]) (simp only: p d c simp_thms)
qed

text \<open>
  Claim C2, evaluated on the code. When the request raises, \<open>ai_analysis\<close> returns the
  placeholder of its \<open>except\<close> branch. That dictionary has the four keys \<open>overview\<close>,
  \<open>patterns\<close>, \<open>recommendations\<close> and \<open>examples\<close>; the key \<open>best_practices\<close> is not in it.
\<close>

theorem ai_analysis_failure_placeholder:
  "\<exists>sections. ai_analysis (\<lambda>prompt. Inl (Exception e)) (Inr prompt) = Inr sections
     \<and> sections ''best_practices'' = None
     \<and> dom sections = {''overview'', ''patterns'', ''recommendations'', ''examples''}
     \<and> sections ''overview'' = Some ''Error during AI analysis''
     \<and> sections ''patterns'' = Some ''Error during AI analysis''
     \<and> sections ''recommendations'' = Some ''Error during AI analysis''
     \<and> sections ''examples'' = Some ''Error during AI analysis''"
  by (auto simp: ai_analysis_def)

text \<open>
  What is not an \<open>Exception\<close> is not caught, and neither is what building the prompt
  raises.
\<close>

lemma ai_analysis_propagates:
  "ai_analysis (\<lambda>prompt. Inl (BaseException b)) (Inr prompt) = Inl (BaseException b)"
  "ai_analysis api (Inl r) = Inl r"
  by (simp_all add: ai_analysis_def)

section \<open>Properties of the pattern extractors\<close>

text \<open>
  Claim C1, evaluated on the code. The sampled files of the scenario are \<open>a.py\<close> with the
  three lines \<open>import os\<close>, \<open>class Foo:\<close>, \<open>    def bar(self): pass\<close>, and \<open>b.py\<close> with
  the line \<open>from collections import defaultdict\<close>. The classes are \<open>{Foo}\<close> and the
  functions \<open>{bar}\<close>; the imports are \<open>{os, collections, defaultdict}\<close>, because the
  first import pattern also matches the tail \<open>import defaultdict\<close> of the \<open>from\<close> line.
\<close>

theorem python_scenario_extraction:
  "set (extract_python_imports scenario_py_files) = {''os'', ''collections'', ''defaultdict''}
   \<and> set (extract_python_imports scenario_py_files) \<noteq> {''os'', ''collections''}
   \<and> set (extract_python_classes scenario_py_files) = {''Foo''}
   \<and> set (extract_python_functions scenario_py_files) = {''bar''}"
  by code_simp

section \<open>Properties of the scan\<close>

lemma foldl_nested:
  "foldl (\<lambda>s (root, files). foldl (g root) s files) a xs =
   foldl (\<lambda>s rf. g (fst rf) s (snd rf)) a (concat (map (\<lambda>(root, files). map (Pair root) files) xs))"
  by (induction xs arbitrary: a) (auto simp: foldl_map)

lemma scan_repo_walked:
  "scan_repo self repo =
     (foldl scan_step self (walked (excluded_dirs self) repo))
       \<lparr>stats := dd_touch 0 (stats (foldl scan_step self (walked (excluded_dirs self) repo)))
                  ''total_files''\<rparr>"
  unfolding scan_repo_def walked_def foldl_nested scan_step_def Let_def ..

lemma samples_of_stats [simp]: "samples_of (self\<lparr>stats := s\<rparr>) ext = samples_of self ext"
  by (simp add: samples_of_def)

lemma count_of_touch [simp]:
  "count_of (self\<lparr>stats := dd_touch 0 (stats self) k\<rparr>) key = count_of self key"
  by (simp add: count_of_def dd_get_def dd_touch_def map_add_def split: option.splits)

lemma scan_step_skipped: "skipped (snd rf) \<Longrightarrow> scan_step self rf = self"
  by (simp add: scan_step_def scan_file_def skipped_def)

lemma scan_step_excluded_dirs [simp]: "excluded_dirs (scan_step self rf) = excluded_dirs self"
  by (simp add: scan_step_def scan_file_def Let_def split: option.splits)

lemma scan_step_max [simp]: "max_files_per_type (scan_step self rf) = max_files_per_type self"
  by (simp add: scan_step_def scan_file_def Let_def split: option.splits)

lemma scan_step_file_data:
  "file_data (scan_step self rf) =
     (if skipped (snd rf) then file_data self
      else AList.update (rel_path (fst rf) (name (snd rf)))
             \<lparr>info_path = rel_path (fst rf) (name (snd rf)), info_type = file_ext (name (snd rf)),
              info_size = getsize (snd rf)\<rparr> (file_data self))"
  by (simp add: scan_step_def scan_file_def skipped_def Let_def split: option.splits)

lemma scan_step_stats:
  "stats (scan_step self rf) =
     (if skipped (snd rf) then stats self
      else incr (''files_by_type_'' @ file_ext (name (snd rf))) (incr ''total_files'' (stats self)))"
  by (simp add: scan_step_def scan_file_def skipped_def Let_def split: option.splits)

lemma dd_get_touch [simp]: "dd_get dflt (dd_touch dflt d k) k' = dd_get dflt d k'"
  by (auto simp: dd_get_def dd_touch_def map_add_def split: option.splits)

lemma dd_get_update: "dd_get dflt (AList.update k v d) k' = (if k' = k then v else dd_get dflt d k')"
  by (simp add: dd_get_def update_conv')

lemma scan_step_samples:
  "samples_of (scan_step self rf) e =
     (if has_ext e rf \<and> length (samples_of self e) < max_files_per_type self
      then (case sample_of rf of None \<Rightarrow> samples_of self e | Some s \<Rightarrow> samples_of self e @ [s])
      else samples_of self e)"
  by (auto simp: scan_step_def scan_file_def skipped_def Let_def samples_of_def sample_of_def has_ext_def
      dd_get_update split: option.splits)

lemma foldl_excluded_dirs [simp]: "excluded_dirs (foldl scan_step self ws) = excluded_dirs self"
  by (induction ws arbitrary: self) auto

lemma foldl_max [simp]: "max_files_per_type (foldl scan_step self ws) = max_files_per_type self"
  by (induction ws arbitrary: self) auto

lemma samples_foldl:
  "samples_of (foldl scan_step self ws) e =
     samples_of self e @ take (max_files_per_type self - length (samples_of self e)) (sampleable e ws)"
proof (induction ws arbitrary: self)
  case Nil
  then show ?case by (simp add: sampleable_def)
next
  case (Cons rf ws)
  show ?case
  proof (cases "has_ext e rf \<and> length (samples_of self e) < max_files_per_type self")
    case False
    then have same: "samples_of (scan_step self rf) e = samples_of self e"
      by (auto simp: scan_step_samples)
    show ?thesis
    proof (cases "has_ext e rf")
      case True
      with False have "max_files_per_type self - length (samples_of self e) = 0" by simp
      then show ?thesis using Cons.IH [of "scan_step self rf"] same by simp
    next
      case False
      then have "sampleable e (rf # ws) = sampleable e ws" by (simp add: sampleable_def)
      then show ?thesis using Cons.IH [of "scan_step self rf"] same by simp
    qed
  next
    case True
    show ?thesis
    proof (cases "sample_of rf")
      case None
      with True have same: "samples_of (scan_step self rf) e = samples_of self e"
        by (simp add: scan_step_samples)
      from None True have "sampleable e (rf # ws) = sampleable e ws"
        by (simp add: sampleable_def)
      then show ?thesis using Cons.IH [of "scan_step self rf"] same by simp
    next
      case (Some s)
      with True have app: "samples_of (scan_step self rf) e = samples_of self e @ [s]"
        by (simp add: scan_step_samples)
      from Some True have c: "sampleable e (rf # ws) = s # sampleable e ws"
        by (simp add: sampleable_def)
      from True obtain k where k: "max_files_per_type self - length (samples_of self e) = Suc k"
        by (metis Suc_diff_Suc)
      then have "max_files_per_type self - length (samples_of self e @ [s]) = k" by simp
      then show ?thesis using Cons.IH [of "scan_step self rf"] app c k by simp
    qed
  qed
qed

lemma map_fst_update:
  "map fst (AList.update k v al) = (if k \<in> fst ` set al then map fst al else map fst al @ [k])"
  by (induction al) auto

lemma keys_foldl:
  "fst ` set (file_data (foldl scan_step self ws)) =
     fst ` set (file_data self) \<union> path_of ` set (recorded ws)"
proof (induction ws arbitrary: self)
  case Nil
  then show ?case by (simp add: recorded_def)
next
  case (Cons rf ws)
  have "fst ` set (file_data (scan_step self rf)) =
      fst ` set (file_data self) \<union> path_of ` set (recorded [rf])"
    by (simp add: scan_step_file_data dom_update recorded_def path_of_def)
  moreover have "recorded (rf # ws) = recorded [rf] @ recorded ws"
    by (simp add: recorded_def)
  ultimately show ?case
    unfolding foldl_Cons Cons.IH by (simp add: image_Un Un_assoc)
qed

lemma keys_foldl_again:
  "path_of ` set (recorded ws) \<subseteq> fst ` set (file_data self)
   \<Longrightarrow> map fst (file_data (foldl scan_step self ws)) = map fst (file_data self)"
proof (induction ws arbitrary: self)
  case Nil
  then show ?case by simp
next
  case (Cons rf ws)
  have split: "recorded (rf # ws) = recorded [rf] @ recorded ws"
    by (simp add: recorded_def)
  have "skipped (snd rf) \<or> path_of rf \<in> fst ` set (file_data self)"
    using Cons.prems by (cases "skipped (snd rf)") (simp_all add: recorded_def)
  then have step: "map fst (file_data (scan_step self rf)) = map fst (file_data self)"
    by (auto simp: scan_step_file_data map_fst_update path_of_def)
  then have "set (map fst (file_data (scan_step self rf))) = set (map fst (file_data self))"
    by simp
  then have "fst ` set (file_data (scan_step self rf)) = fst ` set (file_data self)"
    by (simp only: set_map)
  with Cons.prems split have
    "path_of ` set (recorded ws) \<subseteq> fst ` set (file_data (scan_step self rf))"
    by (simp add: image_Un)
  from Cons.IH [OF this] step show ?case by simp
qed

lemma count_incr: "dd_get 0 (incr k d) k' = dd_get 0 d k' + (if k' = k then 1 else 0)"
  by (simp add: incr_def dd_get_update)

lemma count_step: "count_of (scan_step self rf) k = count_of self k + tally k rf"
  by (simp add: count_of_def scan_step_stats tally_def count_incr)

lemma count_foldl:
  "count_of (foldl scan_step self ws) k = count_of self k + sum_list (map (tally k) ws)"
  by (induction ws arbitrary: self) (simp_all add: count_step)

lemma foldl_filter_skipped:
  "(\<And>s x. \<not> P x \<Longrightarrow> step s x = s) \<Longrightarrow> foldl step a (filter P xs) = foldl step a xs"
  by (induction xs arbitrary: a) simp_all

lemma os_walk_without_oversized:
  "os_walk keep root (without_oversized repo) =
     map (\<lambda>(r, fs). (r, filter (\<lambda>f. getsize f \<le> 1000000) fs)) (os_walk keep root repo)"
  "os_walk_dirs keep root (without_oversized_dirs ds) =
     map (\<lambda>(r, fs). (r, filter (\<lambda>f. getsize f \<le> 1000000) fs)) (os_walk_dirs keep root ds)"
  by (induction keep root repo and keep root ds rule: os_walk_os_walk_dirs.induct) simp_all

lemma walked_without_oversized:
  "walked excluded (without_oversized repo) =
     filter (\<lambda>rf. getsize (snd rf) \<le> 1000000) (walked excluded repo)"
  by (simp add: walked_def os_walk_without_oversized(1) map_concat filter_concat comp_def
      case_prod_unfold filter_map)

lemma update_entries: "set (AList.update k v al) \<subseteq> insert (k, v) (set al)"
  by (induction al) auto

lemma sizes_foldl:
  "list_all (\<lambda>e. info_size (snd e) \<le> 1000000) (file_data self) \<Longrightarrow>
   list_all (\<lambda>e. info_size (snd e) \<le> 1000000) (file_data (foldl scan_step self ws))"
proof (induction ws arbitrary: self)
  case Nil
  then show ?case by simp
next
  case (Cons rf ws)
  have "list_all (\<lambda>e. info_size (snd e) \<le> 1000000) (file_data (scan_step self rf))"
    using Cons.prems update_entries
    by (fastforce simp: scan_step_file_data list_all_iff skipped_def)
  from Cons.IH [OF this] show ?case by simp
qed

lemma scan_repo_excluded_dirs [simp]: "excluded_dirs (scan_repo self repo) = excluded_dirs self"
  by (simp add: scan_repo_walked)

lemma scan_repo_max [simp]: "max_files_per_type (scan_repo self repo) = max_files_per_type self"
  by (simp add: scan_repo_walked)

lemma scan_repo_keys:
  "fst ` set (file_data (scan_repo self repo)) =
     fst ` set (file_data self) \<union> path_of ` set (recorded (walked (excluded_dirs self) repo))"
  by (simp add: scan_repo_walked keys_foldl)

lemma scan_repo_keys_again:
  "path_of ` set (recorded (walked (excluded_dirs self) repo)) \<subseteq> fst ` set (file_data self)
   \<Longrightarrow> map fst (file_data (scan_repo self repo)) = map fst (file_data self)"
  by (simp add: scan_repo_walked keys_foldl_again)

lemma scan_repo_count:
  "count_of (scan_repo self repo) key =
     count_of self key + sum_list (map (tally key) (walked (excluded_dirs self) repo))"
  by (simp add: scan_repo_walked count_foldl)

lemma scan_repo_samples:
  "samples_of (scan_repo self repo) ext =
     samples_of self ext @
     take (max_files_per_type self - length (samples_of self ext))
       (sampleable ext (walked (excluded_dirs self) repo))"
  by (simp add: scan_repo_walked samples_foldl)

lemmas scan_eval =
  scan_repo_def new_analyzer_def scan_file_def is_binary_file_def rel_path_def file_ext_def
  splitext_def incr_def dd_get_def dd_touch_def lower_def lower_char_def is_upper_def Let_def
  char_of_def bit_Suc_0_iff samples_of_def count_of_def text_file_def

text \<open>
  Claim C4. A file of more than 1,000,000 bytes leaves the analyzer as it is: no record, no
  sample, no counter is touched. Hence a scan ends in the state it would end in if the
  repository did not contain its oversized files, and every record made by a scan has a
  size of at most 1,000,000. The extracted patterns are computed from the samples alone.
\<close>

theorem oversized_files_leave_no_trace:
  "(1000000 < getsize f \<longrightarrow> scan_file root self f = self)
   \<and> scan_repo self (without_oversized repo) = scan_repo self repo
   \<and> list_all (\<lambda>e. info_size (snd e) \<le> 1000000) (file_data (scan_repo new_analyzer repo))"
proof (intro conjI)
  show "1000000 < getsize f \<longrightarrow> scan_file root self f = self"
    by (simp add: scan_file_def)
  have "foldl scan_step self
          (filter (\<lambda>rf. getsize (snd rf) \<le> 1000000) (walked (excluded_dirs self) repo)) =
        foldl scan_step self (walked (excluded_dirs self) repo)"
    by (rule foldl_filter_skipped, rule scan_step_skipped) (simp add: skipped_def)
  then show "scan_repo self (without_oversized repo) = scan_repo self repo"
    by (simp add: scan_repo_walked walked_without_oversized)
  show "list_all (\<lambda>e. info_size (snd e) \<le> 1000000) (file_data (scan_repo new_analyzer repo))"
  proof -
    have "file_data (scan_repo new_analyzer repo) =
        file_data (foldl scan_step new_analyzer (walked (excluded_dirs new_analyzer) repo))"
      by (simp add: scan_repo_walked)
    then show ?thesis
      using sizes_foldl [of new_analyzer "walked (excluded_dirs new_analyzer) repo"]
      by (simp add: new_analyzer_def)
  qed
qed

theorem oversized_files_leave_no_trace_witness:
  "1000000 < getsize big_py
   \<and> scan_file [] new_analyzer big_py = new_analyzer
   \<and> scan_repo new_analyzer (without_oversized example_repo) = scan_repo new_analyzer example_repo
   \<and> map fst (file_data (scan_repo new_analyzer example_repo)) = [''a.py'', ''latin.py'', ''src/Main.PY'']
   \<and> map path (samples_of (scan_repo new_analyzer example_repo) ''py'') = [''a.py'', ''src/Main.PY'']
   \<and> count_of (scan_repo new_analyzer example_repo) ''total_files'' = 3
   \<and> count_of (scan_repo new_analyzer example_repo) ''files_by_type_py'' = 3"
proof -
  have big: "1000000 < getsize big_py"
    by (simp add: big_py_def)
  have ev: "map fst (file_data (scan_repo new_analyzer example_repo)) = [''a.py'', ''latin.py'', ''src/Main.PY'']"
    "map path (samples_of (scan_repo new_analyzer example_repo) ''py'') = [''a.py'', ''src/Main.PY'']"
    "count_of (scan_repo new_analyzer example_repo) ''total_files'' = 3"
    "count_of (scan_repo new_analyzer example_repo) ''files_by_type_py'' = 3"
    by (simp_all add: scan_eval example_repo_def big_py_def latin_py_def logo_png_def)
  from big ev oversized_files_leave_no_trace [of big_py "[]" new_analyzer example_repo]
  show ?thesis by simp
qed

text \<open>
  Claim C5, as amended. \<open>scan_repo\<close> does not reset the dictionaries that \<open>__init__\<close>
  creates. A second scan of the unchanged repository by the same analyzer leaves the keys
  of \<open>file_data\<close> as they were, in the same order. Every counter, \<open>total_files\<close> and each
  per-extension count, is after the second scan of a new analyzer twice what it was after
  the first, so it is what it was exactly when it is 0.
\<close>

theorem rescan_keeps_keys_doubles_counters:
  "map fst (file_data (scan_repo (scan_repo self repo) repo)) = map fst (file_data (scan_repo self repo))
   \<and> count_of (scan_repo (scan_repo new_analyzer repo) repo) key
       = 2 * count_of (scan_repo new_analyzer repo) key
   \<and> (count_of (scan_repo (scan_repo new_analyzer repo) repo) key
        = count_of (scan_repo new_analyzer repo) key
      \<longleftrightarrow> count_of (scan_repo new_analyzer repo) key = 0)"
proof -
  have "path_of ` set (recorded (walked (excluded_dirs (scan_repo self repo)) repo))
      \<subseteq> fst ` set (file_data (scan_repo self repo))"
    by (simp add: scan_repo_keys)
  then have k: "map fst (file_data (scan_repo (scan_repo self repo) repo))
      = map fst (file_data (scan_repo self repo))"
    by (rule scan_repo_keys_again)
  have z: "count_of new_analyzer key = 0"
    by (simp add: count_of_def new_analyzer_def dd_get_def)
  have c: "count_of (scan_repo (scan_repo new_analyzer repo) repo) key
       = 2 * count_of (scan_repo new_analyzer repo) key"
    by (simp add: scan_repo_count z)
  from k c show ?thesis by simp
qed

theorem rescan_keeps_keys_doubles_counters_witness:
  "map fst (file_data (scan_repo (scan_repo new_analyzer example_repo) example_repo))
     = [''a.py'', ''latin.py'', ''src/Main.PY'']
   \<and> map fst (file_data (scan_repo new_analyzer example_repo)) = [''a.py'', ''latin.py'', ''src/Main.PY'']
   \<and> count_of (scan_repo new_analyzer example_repo) ''files_by_type_py'' = 3
   \<and> count_of (scan_repo (scan_repo new_analyzer example_repo) example_repo) ''files_by_type_py'' = 6"
proof -
  have ev: "map fst (file_data (scan_repo new_analyzer example_repo)) = [''a.py'', ''latin.py'', ''src/Main.PY'']"
    "count_of (scan_repo new_analyzer example_repo) ''files_by_type_py'' = 3"
    by (simp_all add: scan_eval example_repo_def big_py_def latin_py_def logo_png_def)
  from ev rescan_keeps_keys_doubles_counters [of new_analyzer example_repo "''files_by_type_py''"]
  show ?thesis by simp
qed

text \<open>
  The claim as stated fails for the per-extension counts: after the second scan of the
  example repository the analyzer counts 6 Python files, after the first one 3.
\<close>

theorem rescan_counts_counterexample:
  "count_of (scan_repo (scan_repo new_analyzer example_repo) example_repo) ''files_by_type_py''
     \<noteq> count_of (scan_repo new_analyzer example_repo) ''files_by_type_py''"
  by (simp add: scan_eval example_repo_def big_py_def latin_py_def logo_png_def)

lemma samples_of_new_scan:
  "samples_of (scan_repo (new_analyzer\<lparr>max_files_per_type := n\<rparr>) repo) ext
       = take n (sampleable ext (walked (excluded_dirs new_analyzer) repo))"
proof -
  have "samples_of (new_analyzer\<lparr>max_files_per_type := n\<rparr>) ext = []"
    by (simp add: samples_of_def new_analyzer_def dd_get_def)
  then show ?thesis
    by (simp add: scan_repo_samples)
qed

lemma scans_excluded_dirs [simp]: "excluded_dirs (foldl scan_repo self repos) = excluded_dirs self"
  by (induction repos arbitrary: self) simp_all

lemma scans_max [simp]: "max_files_per_type (foldl scan_repo self repos) = max_files_per_type self"
  by (induction repos arbitrary: self) simp_all

lemma scans_within_cap:
  "length (samples_of self ext) \<le> max_files_per_type self
   \<Longrightarrow> length (samples_of (foldl scan_repo self repos) ext) \<le> max_files_per_type self"
proof (induction repos arbitrary: self)
  case Nil
  then show ?case by simp
next
  case (Cons repo repos)
  have "length (samples_of (scan_repo self repo) ext) \<le> max_files_per_type (scan_repo self repo)"
    using Cons.prems by (simp add: scan_repo_samples)
  from Cons.IH [OF this] show ?case by simp
qed

lemmas file_eval =
  is_binary_file_def rel_path_def file_ext_def splitext_def lower_def lower_char_def is_upper_def
  Let_def char_of_def bit_Suc_0_iff text_file_def skipped_def has_ext_def path_of_def sample_of_def

lemma cap_walked:
  "walked (excluded_dirs new_analyzer) cap_repo =
     map (Pair []) (\<lparr>name = ''f00.py'', getsize = 9000, head_decodes = True, decoded = None\<rparr> #
          map (\<lambda>n. text_file n ''pass'') cap_names)"
  by (simp add: walked_def cap_repo_def)

lemma cap_sampled:
  "map path (samples_of (scan_repo new_analyzer cap_repo) ''py'') = cap_names"
proof -
  have "new_analyzer\<lparr>max_files_per_type := 25\<rparr> = new_analyzer"
    by (simp add: new_analyzer_def)
  then have "samples_of (scan_repo new_analyzer cap_repo) ''py''
      = take 25 (sampleable ''py'' (walked (excluded_dirs new_analyzer) cap_repo))"
    using samples_of_new_scan [of 25 cap_repo "''py''"] by simp
  then show ?thesis
    unfolding cap_walked by (simp add: sampleable_def file_eval cap_names_def)
qed

lemma cap_encountered:
  "take 25 (encountered ''py'' cap_repo) = ''f00.py'' # butlast cap_names"
  unfolding encountered_def cap_walked by (simp add: file_eval cap_names_def)

text \<open>
  Claim C6, as amended. After any scan, by a new analyzer or by one that has scanned before,
  the sample list of an extension is the list held before the scan followed by the first
  files of that extension, in walk order, among the files that are neither binary nor
  oversized and whose content decodes (each with its content cut to 100,000 characters),
  as many as fit under \<open>max_files_per_type\<close>. So a list within the cap stays within it,
  an analyzer that started new with cap \<open>n\<close> holds at most \<open>n\<close> samples of an extension
  after any number of scans, and after the first scan of a new analyzer the samples are
  the first \<open>n\<close> such files. No choice is random.
\<close>

theorem samples_are_first_sampleable:
  "samples_of (scan_repo self repo) ext =
     samples_of self ext @
     take (max_files_per_type self - length (samples_of self ext))
       (sampleable ext (walked (excluded_dirs self) repo))
   \<and> (length (samples_of self ext) \<le> max_files_per_type self
      \<longrightarrow> length (samples_of (scan_repo self repo) ext) \<le> max_files_per_type self)
   \<and> length (samples_of (foldl scan_repo (new_analyzer\<lparr>max_files_per_type := n\<rparr>) repos) ext) \<le> n
   \<and> length (samples_of (scan_repo (new_analyzer\<lparr>max_files_per_type := n\<rparr>) repo) ext) \<le> n
   \<and> samples_of (scan_repo (new_analyzer\<lparr>max_files_per_type := n\<rparr>) repo) ext
       = take n (sampleable ext (walked (excluded_dirs new_analyzer) repo))"
proof (intro conjI impI)
  show "samples_of (scan_repo self repo) ext =
     samples_of self ext @
     take (max_files_per_type self - length (samples_of self ext))
       (sampleable ext (walked (excluded_dirs self) repo))"
    by (rule scan_repo_samples)
  assume "length (samples_of self ext) \<le> max_files_per_type self"
  then show "length (samples_of (scan_repo self repo) ext) \<le> max_files_per_type self"
    by (simp add: scan_repo_samples)
next
  have "length (samples_of (new_analyzer\<lparr>max_files_per_type := n\<rparr>) ext)
      \<le> max_files_per_type (new_analyzer\<lparr>max_files_per_type := n\<rparr>)"
    by (simp add: samples_of_def new_analyzer_def dd_get_def)
  from scans_within_cap [OF this, of repos]
  show "length (samples_of (foldl scan_repo (new_analyzer\<lparr>max_files_per_type := n\<rparr>) repos) ext) \<le> n"
    by simp
qed (simp_all add: samples_of_new_scan)

lemma example_walked:
  "walked (excluded_dirs new_analyzer) example_repo =
     [([], text_file ''a.py'' ''import os''), ([], big_py), ([], latin_py), ([], logo_png),
      ([''src''], text_file ''Main.PY'' ''pass'')]"
  by (simp add: walked_def example_repo_def new_analyzer_def)

lemma example_sampleable:
  "sampleable ''py'' (walked (excluded_dirs new_analyzer) example_repo) =
     [\<lparr>path = ''a.py'', content = ''import os''\<rparr>, \<lparr>path = ''src/Main.PY'', content = ''pass''\<rparr>]"
  unfolding example_walked
  by (simp add: sampleable_def file_eval big_py_def latin_py_def logo_png_def)

theorem samples_are_first_sampleable_witness:
  "length (samples_of new_analyzer ''py'') \<le> max_files_per_type new_analyzer
   \<and> length (samples_of (scan_repo new_analyzer cap_repo) ''py'') \<le> max_files_per_type new_analyzer
   \<and> samples_of (scan_repo new_analyzer cap_repo) ''py''
       = take 25 (sampleable ''py'' (walked (excluded_dirs new_analyzer) cap_repo))
   \<and> map path (samples_of (scan_repo new_analyzer cap_repo) ''py'') = cap_names
   \<and> map path (samples_of (scan_repo new_analyzer example_repo) ''py'') = [''a.py'', ''src/Main.PY'']
   \<and> map path (samples_of (scan_repo (scan_repo new_analyzer example_repo) example_repo) ''py'')
       = [''a.py'', ''src/Main.PY'', ''a.py'', ''src/Main.PY'']"
proof -
  have a: "new_analyzer\<lparr>max_files_per_type := 25\<rparr> = new_analyzer"
    by (simp add: new_analyzer_def)
  have l: "length (samples_of new_analyzer ''py'') \<le> max_files_per_type new_analyzer"
    by (simp add: samples_of_def new_analyzer_def dd_get_def)
  note t = samples_are_first_sampleable [of new_analyzer cap_repo "''py''" 25 "[]", unfolded a]
  from t l have
    "length (samples_of (scan_repo new_analyzer cap_repo) ''py'') \<le> max_files_per_type new_analyzer"
    by (rule conjunct2 [THEN conjunct1, THEN mp])
  moreover from t have "samples_of (scan_repo new_analyzer cap_repo) ''py''
       = take 25 (sampleable ''py'' (walked (excluded_dirs new_analyzer) cap_repo))"
    by (rule conjunct2 [THEN conjunct2, THEN conjunct2, THEN conjunct2])
  moreover have first: "samples_of (scan_repo new_analyzer example_repo) ''py'' =
      [\<lparr>path = ''a.py'', content = ''import os''\<rparr>, \<lparr>path = ''src/Main.PY'', content = ''pass''\<rparr>]"
    using samples_of_new_scan [of 25 example_repo "''py''"] unfolding a example_sampleable by simp
  moreover have "map path (samples_of (scan_repo (scan_repo new_analyzer example_repo) example_repo) ''py'')
       = [''a.py'', ''src/Main.PY'', ''a.py'', ''src/Main.PY'']"
    using samples_are_first_sampleable
      [of "scan_repo new_analyzer example_repo" example_repo "''py''" 25 "[]", THEN conjunct1]
    unfolding scan_repo_excluded_dirs scan_repo_max first example_sampleable
    by (simp add: new_analyzer_def)
  ultimately show ?thesis
    using l cap_sampled by (simp only: first list.map sampled_file.simps simp_thms)
qed

text \<open>
  The claim as stated fails where a file's content does not decode. In a directory of 26
  Python files whose first file is such a file, the 25 retained samples are the files 2 to
  26: the 26th file met is retained and the first one is not, so the retained entries are
  not the first 25 files of the extension met during the walk.
\<close>

theorem first_encountered_counterexample:
  "map path (samples_of (scan_repo new_analyzer cap_repo) ''py'')
     \<noteq> take (max_files_per_type new_analyzer) (encountered ''py'' cap_repo)
   \<and> ''f25.py'' \<in> set (map path (samples_of (scan_repo new_analyzer cap_repo) ''py''))
   \<and> ''f25.py'' \<notin> set (take (max_files_per_type new_analyzer) (encountered ''py'' cap_repo))
   \<and> ''f00.py'' \<notin> set (map path (samples_of (scan_repo new_analyzer cap_repo) ''py''))
   \<and> ''f00.py'' \<in> set (take (max_files_per_type new_analyzer) (encountered ''py'' cap_repo))"
proof -
  have m: "max_files_per_type new_analyzer = 25"
    by (simp add: new_analyzer_def)
  show ?thesis
    unfolding m cap_sampled cap_encountered by (simp add: cap_names_def)
qed

text \<open>
  Claim C9. Take a file that passes the binary probe and the size test and whose full
  content does not decode. Processing it stores its record in \<open>file_data\<close> and adds
  one to \<open>total_files\<close> and to the counter of its extension, exactly as for the same
  file with decodable content, and leaves the sample list of every extension as it was.
\<close>

theorem content_decode_failure_only_unsampled:
  assumes "\<not> is_binary_file f" and "getsize f \<le> 1000000" and "decoded f = None"
  shows "file_data (scan_file root self f) =
           AList.update (rel_path root (name f))
             \<lparr>info_path = rel_path root (name f), info_type = file_ext (name f), info_size = getsize f\<rparr>
             (file_data self)
       \<and> count_of (scan_file root self f) ''total_files'' = count_of self ''total_files'' + 1
       \<and> count_of (scan_file root self f) (''files_by_type_'' @ file_ext (name f))
           = count_of self (''files_by_type_'' @ file_ext (name f)) + 1
       \<and> samples_of (scan_file root self f) ext = samples_of self ext
       \<and> file_data (scan_file root self f) = file_data (scan_file root self (f\<lparr>decoded := Some text\<rparr>))
       \<and> stats (scan_file root self f) = stats (scan_file root self (f\<lparr>decoded := Some text\<rparr>))"
proof -
  let ?rf = "(root, f)" and ?rg = "(root, f\<lparr>decoded := Some text\<rparr>)"
  have s: "scan_file root self f = scan_step self ?rf"
    "scan_file root self (f\<lparr>decoded := Some text\<rparr>) = scan_step self ?rg"
    by (simp_all add: scan_step_def)
  have k: "\<not> skipped (snd ?rf)" "\<not> skipped (snd ?rg)"
    using assms by (simp_all add: skipped_def is_binary_file_def)
  have n: "sample_of ?rf = None"
    using assms by (simp add: sample_of_def)
  show ?thesis
    unfolding s using k
    by (simp add: scan_step_file_data scan_step_stats count_step tally_def scan_step_samples n)
qed

theorem content_decode_failure_only_unsampled_witness:
  "\<not> is_binary_file latin_py \<and> getsize latin_py \<le> 1000000 \<and> decoded latin_py = None
   \<and> map fst (file_data (scan_file [] new_analyzer latin_py)) = [''latin.py'']
   \<and> count_of (scan_file [] new_analyzer latin_py) ''total_files'' = 1
   \<and> count_of (scan_file [] new_analyzer latin_py) ''files_by_type_py'' = 1
   \<and> samples_of (scan_file [] new_analyzer latin_py) ''py'' = []
   \<and> stats (scan_file [] new_analyzer latin_py)
       = stats (scan_file [] new_analyzer (latin_py\<lparr>decoded := Some ''pass''\<rparr>))"
proof -
  have h: "\<not> is_binary_file latin_py" "getsize latin_py \<le> 1000000" "decoded latin_py = None"
    by (simp_all add: latin_py_def is_binary_file_def)
  have e: "file_ext (name latin_py) = ''py''" "rel_path [] (name latin_py) = ''latin.py''"
    by (simp_all add: file_eval latin_py_def)
  have z: "count_of new_analyzer ''total_files'' = 0" "count_of new_analyzer ''files_by_type_py'' = 0"
    "samples_of new_analyzer ''py'' = []" "file_data new_analyzer = []"
    by (simp_all add: count_of_def samples_of_def new_analyzer_def dd_get_def)
  from content_decode_failure_only_unsampled [OF h, of "[]" new_analyzer "''py''" "''pass''"]
  show ?thesis
    using h by (simp add: e z)
qed

section \<open>Properties of the entry points\<close>

lemma append_to_category:
  "append_to ''backend'' p [(''backend'', b), (''frontend'', f), (''cli'', c), (''config'', g)] =
     [(''backend'', b @ [p]), (''frontend'', f), (''cli'', c), (''config'', g)]"
  "append_to ''frontend'' p [(''backend'', b), (''frontend'', f), (''cli'', c), (''config'', g)] =
     [(''backend'', b), (''frontend'', f @ [p]), (''cli'', c), (''config'', g)]"
  "append_to ''cli'' p [(''backend'', b), (''frontend'', f), (''cli'', c), (''config'', g)] =
     [(''backend'', b), (''frontend'', f), (''cli'', c @ [p]), (''config'', g)]"
  "append_to ''config'' p [(''backend'', b), (''frontend'', f), (''cli'', c), (''config'', g)] =
     [(''backend'', b), (''frontend'', f), (''cli'', c), (''config'', g @ [p])]"
  by (simp_all add: append_to_def)

lemma classify_step:
  "classify [(''backend'', b), (''frontend'', f), (''cli'', c), (''config'', g)] p =
     [(''backend'', b @ filter (first_match backend_patterns) [p]),
      (''frontend'', f @ filter (first_match frontend_patterns) [p]),
      (''cli'', c @ filter (first_match cli_patterns) [p]),
      (''config'', g @ filter (first_match config_patterns) [p])]"
proof -
  define B where "B = first_match backend_patterns p"
  define F where "F = first_match frontend_patterns p"
  define C where "C = first_match cli_patterns p"
  define G where "G = first_match config_patterns p"
  have "(let ep1 = (if B then append_to ''backend'' p
                      [(''backend'', b), (''frontend'', f), (''cli'', c), (''config'', g)]
                    else [(''backend'', b), (''frontend'', f), (''cli'', c), (''config'', g)]);
            ep2 = (if F then append_to ''frontend'' p ep1 else ep1);
            ep3 = (if C then append_to ''cli'' p ep2 else ep2)
        in if G then append_to ''config'' p ep3 else ep3) =
     [(''backend'', b @ (if B then [p] else [])), (''frontend'', f @ (if F then [p] else [])),
      (''cli'', c @ (if C then [p] else [])), (''config'', g @ (if G then [p] else []))]"
    by (cases B; cases F; cases C; cases G)
       (simp_all only: Let_def if_True if_False append_to_category append_Nil2)
  then show ?thesis
    unfolding classify_def B_def F_def C_def G_def by (simp only: filter.simps)
qed

lemma classify_all:
  "foldl classify [(''backend'', b), (''frontend'', f), (''cli'', c), (''config'', g)] ps =
     [(''backend'', b @ filter (first_match backend_patterns) ps),
      (''frontend'', f @ filter (first_match frontend_patterns) ps),
      (''cli'', c @ filter (first_match cli_patterns) ps),
      (''config'', g @ filter (first_match config_patterns) ps)]"
proof (induction ps arbitrary: b f c g)
  case Nil
  show ?case by (simp only: foldl_Nil filter.simps append_Nil2)
next
  case (Cons p ps)
  have "filter P (p # ps) = filter P [p] @ filter P ps" for P :: "string \<Rightarrow> bool"
    by simp
  then show ?case
    by (simp only: foldl_Cons classify_step Cons.IH append_assoc)
qed

lemma map_of_nonempty_four:
  assumes "distinct [k1, k2, k3, k4]"
  shows "map_of (filter (\<lambda>(k, v). v \<noteq> []) [(k1, v1), (k2, v2), (k3, v3), (k4, v4 :: 'b list)]) k =
     (if k = k1 then (if v1 = [] then None else Some v1)
      else if k = k2 then (if v2 = [] then None else Some v2)
      else if k = k3 then (if v3 = [] then None else Some v3)
      else if k = k4 then (if v4 = [] then None else Some v4)
      else None)"
    and "fst ` set (filter (\<lambda>(k, v). v \<noteq> []) [(k1, v1), (k2, v2), (k3, v3), (k4, v4)])
      \<subseteq> {k1, k2, k3, k4}"
  using assms by auto

lemma category_keys_distinct: "distinct [''backend'', ''frontend'', ''cli'', ''config'']"
  by simp

lemma entry_points_eq:
  "identify_entry_points self = filter (\<lambda>(k, v). v \<noteq> [])
     [(''backend'', filter (first_match backend_patterns) (map fst (file_data self))),
      (''frontend'', filter (first_match frontend_patterns) (map fst (file_data self))),
      (''cli'', filter (first_match cli_patterns) (map fst (file_data self))),
      (''config'', filter (first_match config_patterns) (map fst (file_data self)))]"
  unfolding identify_entry_points_def classify_all append_Nil ..

lemma category_keys_differ:
  "''frontend'' \<noteq> ''backend''" "''cli'' \<noteq> ''backend''" "''config'' \<noteq> ''backend''"
  "''cli'' \<noteq> ''frontend''" "''config'' \<noteq> ''frontend''" "''config'' \<noteq> ''cli''"
  by simp_all

text \<open>
  Claim C7. Every category in the result of \<open>_identify_entry_points\<close> has a non-empty
  list. The entry of each of the four categories is the list of the keys of \<open>file_data\<close>,
  in order, that match one of its patterns, and the category is absent when that list is
  empty; no other key occurs.
\<close>

theorem entry_points_never_empty:
  "list_all (\<lambda>kv. snd kv \<noteq> []) (identify_entry_points self)
   \<and> map_of (identify_entry_points self) ''backend''
       = present (filter (first_match backend_patterns) (map fst (file_data self)))
   \<and> map_of (identify_entry_points self) ''frontend''
       = present (filter (first_match frontend_patterns) (map fst (file_data self)))
   \<and> map_of (identify_entry_points self) ''cli''
       = present (filter (first_match cli_patterns) (map fst (file_data self)))
   \<and> map_of (identify_entry_points self) ''config''
       = present (filter (first_match config_patterns) (map fst (file_data self)))
   \<and> fst ` set (identify_entry_points self) \<subseteq> {''backend'', ''frontend'', ''cli'', ''config''}"
proof (intro conjI)
  show "list_all (\<lambda>kv. snd kv \<noteq> []) (identify_entry_points self)"
    by (simp add: identify_entry_points_def list_all_iff case_prod_unfold)
  note m = map_of_nonempty_four(1) [OF category_keys_distinct]
  show "map_of (identify_entry_points self) ''backend''
       = present (filter (first_match backend_patterns) (map fst (file_data self)))"
    unfolding entry_points_eq m present_def by (simp only: simp_thms if_True)
  show "map_of (identify_entry_points self) ''frontend''
       = present (filter (first_match frontend_patterns) (map fst (file_data self)))"
    unfolding entry_points_eq m present_def by (simp only: category_keys_differ simp_thms if_True if_False)
  show "map_of (identify_entry_points self) ''cli''
       = present (filter (first_match cli_patterns) (map fst (file_data self)))"
    unfolding entry_points_eq m present_def by (simp only: category_keys_differ simp_thms if_True if_False)
  show "map_of (identify_entry_points self) ''config''
       = present (filter (first_match config_patterns) (map fst (file_data self)))"
    unfolding entry_points_eq m present_def by (simp only: category_keys_differ simp_thms if_True if_False)
  show "fst ` set (identify_entry_points self) \<subseteq> {''backend'', ''frontend'', ''cli'', ''config''}"
    unfolding entry_points_eq by (rule map_of_nonempty_four(2) [OF category_keys_distinct])
qed

lemma web_keys:
  "map fst (file_data (scan_repo new_analyzer web_repo)) = [''a.md'', ''b.yml'', ''src/App.PY'']"
  by (simp add: scan_eval web_repo_def logo_png_def)

lemma web_backend:
  "filter (first_match backend_patterns) [''a.md'', ''b.yml'', ''src/App.PY''] = [''src/App.PY'']"
  by code_simp

lemma web_frontend:
  "filter (first_match frontend_patterns) [''a.md'', ''b.yml'', ''src/App.PY''] = []"
  by code_simp

lemma web_cli:
  "filter (first_match cli_patterns) [''a.md'', ''b.yml'', ''src/App.PY''] = []"
  by code_simp

lemma web_config:
  "filter (first_match config_patterns) [''a.md'', ''b.yml'', ''src/App.PY''] = [''b.yml'']"
  by code_simp

theorem entry_points_never_empty_witness:
  "list_all (\<lambda>kv. snd kv \<noteq> []) (identify_entry_points (scan_repo new_analyzer web_repo))
   \<and> map_of (identify_entry_points (scan_repo new_analyzer web_repo)) ''backend'' = Some [''src/App.PY'']
   \<and> map_of (identify_entry_points (scan_repo new_analyzer web_repo)) ''frontend'' = None
   \<and> map_of (identify_entry_points (scan_repo new_analyzer web_repo)) ''cli'' = None
   \<and> map_of (identify_entry_points (scan_repo new_analyzer web_repo)) ''config'' = Some [''b.yml'']"
  using entry_points_never_empty [of "scan_repo new_analyzer web_repo"]
  unfolding web_keys web_backend web_frontend web_cli web_config present_def by simp

section \<open>Properties of the dependency table\<close>

text \<open>\<open>split\<close> always returns at least one piece, so taking piece \<open>[0]\<close> never fails.\<close>

lemma split_go_nonempty: "split_go sep k cur s \<noteq> []"
  by (induction sep k cur s rule: split_go.induct) auto

lemma split_nonempty: "split s sep \<noteq> []"
  by (simp add: split_def split_go_nonempty)

lemma python_manifest_ignored:
  "req_file \<noteq> ''requirements.txt'' \<Longrightarrow> python_manifest repo deps0 req_file = deps0"
  by (simp add: python_manifest_def split: option.splits sum.splits)

lemma python_manifests_only_requirements:
  "foldl (python_manifest repo) deps0 python_req_files = python_manifest repo deps0 ''requirements.txt''"
  by (simp add: python_req_files_def python_manifest_ignored)

text \<open>
  Claim C10, as amended. In the loop over the four candidate requirement files only
  \<open>requirements.txt\<close> contributes to the Python table: \<open>Pipfile\<close>, \<open>pyproject.toml\<close> and
  \<open>setup.py\<close> are opened and read, and the loop leaves the table as it was. So, for given
  sampled files, the table depends on the root of the repository only through
  \<open>package.json\<close> and \<open>requirements.txt\<close>. \<open>Pipfile\<close> and \<open>pyproject.toml\<close> are sampled
  under the extensions \<open>no_extension\<close> and \<open>toml\<close>, which the import tally passes over.
  \<open>setup.py\<close> is sampled under \<open>py\<close>, and the import tally counts the imports of every
  sampled file of that extension.
\<close>

theorem only_requirements_txt_contributes:
  assumes "open_text repo' ''package.json'' = open_text repo ''package.json''"
    and "open_text repo' ''requirements.txt'' = open_text repo ''requirements.txt''"
  shows "identify_dependencies json_load repo' self = identify_dependencies json_load repo self
     \<and> python_manifest repo deps0 ''Pipfile'' = deps0
     \<and> python_manifest repo deps0 ''pyproject.toml'' = deps0
     \<and> python_manifest repo deps0 ''setup.py'' = deps0
     \<and> file_ext ''Pipfile'' = ''no_extension'' \<and> count_imports deps0 (''no_extension'', files) = deps0
     \<and> file_ext ''pyproject.toml'' = ''toml'' \<and> count_imports deps0 (''toml'', files) = deps0
     \<and> file_ext ''setup.py'' = ''py''
     \<and> count_imports deps0 (''py'', files) = foldl python_imports deps0 files"
proof -
  have j: "javascript_manifest json_load repo' d = javascript_manifest json_load repo d" for d
    using assms(1) by (simp add: javascript_manifest_def)
  have p: "python_manifest repo' d ''requirements.txt'' = python_manifest repo d ''requirements.txt''" for d
    using assms(2) by (simp add: python_manifest_def)
  have "identify_dependencies json_load repo' self = identify_dependencies json_load repo self"
    unfolding identify_dependencies_def Let_def python_manifests_only_requirements j p ..
  moreover have "file_ext ''Pipfile'' = ''no_extension''" "file_ext ''pyproject.toml'' = ''toml''"
    "file_ext ''setup.py'' = ''py''"
    by (simp_all add: file_eval)
  moreover have "count_imports deps0 (''no_extension'', files) = deps0"
    "count_imports deps0 (''toml'', files) = deps0"
    "count_imports deps0 (''py'', files) = foldl python_imports deps0 files"
    by (simp_all add: count_imports_def)
  ultimately show ?thesis
    by (simp add: python_manifest_ignored)
qed

lemmas deps_eval =
  identify_dependencies_def javascript_manifest_def python_manifest_def python_req_files_def
  requirement_line_def bump_def set_count_def dict_get_def dict_update_def count_imports_def
  javascript_imports_def python_imports_def strip_def isspace_def split_def startswith_def
  newline_def Let_def

theorem only_requirements_txt_contributes_witness:
  "open_text py_repo_bare ''package.json'' = open_text py_repo ''package.json''
   \<and> open_text py_repo_bare ''requirements.txt'' = open_text py_repo ''requirements.txt''
   \<and> identify_dependencies react_json_load py_repo new_analyzer
       = [(''python'', [(''flask'', 1), (''requests'', 1)])]
   \<and> identify_dependencies react_json_load py_repo_bare new_analyzer
       = [(''python'', [(''flask'', 1), (''requests'', 1)])]
   \<and> open_text py_repo ''Pipfile'' = Some (Inr ''django = 1'')
   \<and> open_text py_repo_bare ''Pipfile'' = None"
proof -
  have o: "open_text py_repo_bare ''package.json'' = open_text py_repo ''package.json''"
    "open_text py_repo_bare ''requirements.txt'' = open_text py_repo ''requirements.txt''"
    "open_text py_repo ''Pipfile'' = Some (Inr ''django = 1'')"
    "open_text py_repo_bare ''Pipfile'' = None"
    by (simp_all add: py_repo_def py_repo_bare_def requirements_txt_def requirements_text_def text_file_def)
  have e: "identify_dependencies react_json_load py_repo_bare new_analyzer
       = [(''python'', [(''flask'', 1), (''requests'', 1)])]"
    by (simp add: deps_eval py_repo_bare_def requirements_txt_def requirements_text_def text_file_def new_analyzer_def)
  from only_requirements_txt_contributes [OF o(1,2), of react_json_load new_analyzer]
  show ?thesis using o e by simp
qed

lemma react_import:
  "re_findall [] js_import_pattern react_source = [''react-dom'']"
  by code_simp

lemma react_lengths:
  "length react_manifest_text = 36" "length react_source = 18"
  by (simp_all add: react_manifest_text_def react_source_def quoted_def)

lemma react_samples:
  assumes "ext \<in> set [''js'', ''jsx'', ''ts'', ''tsx'']"
  shows "file_patterns (scan_repo new_analyzer (react_repo ext)) =
     [(''json'', [\<lparr>path = ''package.json'', content = react_manifest_text\<rparr>]),
      (ext, [\<lparr>path = ''index.'' @ ext, content = react_source\<rparr>])]"
proof -
  from assms consider "ext = ''js''" | "ext = ''jsx''" | "ext = ''ts''" | "ext = ''tsx''"
    by auto
  then show ?thesis
    by cases (simp_all add: scan_eval react_repo_def react_lengths)
qed

lemma react_open:
  assumes "ext \<in> set [''js'', ''jsx'', ''ts'', ''tsx'']"
  shows "open_text (react_repo ext) ''package.json'' = Some (Inr react_manifest_text)"
    "open_text (react_repo ext) ''requirements.txt'' = None"
    "open_text (react_repo ext) ''Pipfile'' = None"
    "open_text (react_repo ext) ''pyproject.toml'' = None"
    "open_text (react_repo ext) ''setup.py'' = None"
  using assms by (auto simp: react_repo_def text_file_def)

lemma react_imports:
  "extract_js_imports [\<lparr>path = p, content = react_source\<rparr>] = [''react-dom'']"
  by (simp add: extract_js_imports_def react_import list_set_def)

text \<open>
  Claim C8. Take the repository whose \<open>package.json\<close> declares
  \<^verbatim>\<open>{"dependencies":{"react":"^18.0.0"}}\<close> and whose one source file, of extension \<open>js\<close>,
  \<open>jsx\<close>, \<open>ts\<close> or \<open>tsx\<close>, holds the line \<^verbatim>\<open>import "react-dom"\<close>. Scanning it and
  computing the dependencies gives the JavaScript table with \<open>react\<close> at count 1 and
  \<open>react-dom\<close> at count 1, both present, and no other ecosystem.
\<close>

theorem react_scenario_dependencies:
  assumes "ext \<in> set [''js'', ''jsx'', ''ts'', ''tsx'']"
    and "json_load react_manifest_text = Inr react_manifest"
  shows "identify_dependencies json_load (react_repo ext) (scan_repo new_analyzer (react_repo ext))
     = [(''javascript'', [(''react'', 1), (''react-dom'', 1)])]"
proof -
  have m: "javascript_manifest json_load (react_repo ext)
        [(''javascript'', []), (''python'', []), (''java'', []), (''go'', [])]
      = [(''javascript'', [(''react'', 1)]), (''python'', []), (''java'', []), (''go'', [])]"
    by (simp add: javascript_manifest_def react_open(1) [OF assms(1)] assms(2) react_manifest_def
        dict_update_def set_count_def)
  have r: "foldl (python_manifest (react_repo ext))
        [(''javascript'', [(''react'', 1)]), (''python'', []), (''java'', []), (''go'', [])]
        python_req_files
      = [(''javascript'', [(''react'', 1)]), (''python'', []), (''java'', []), (''go'', [])]"
    by (simp add: python_req_files_def python_manifest_def react_open [OF assms(1)])
  have j: "count_imports d (''json'', fs) = d" for d fs
    by (simp add: count_imports_def)
  have c: "count_imports [(''javascript'', [(''react'', 1)]), (''python'', []), (''java'', []), (''go'', [])]
        (ext, [\<lparr>path = p, content = react_source\<rparr>])
      = [(''javascript'', [(''react'', 1), (''react-dom'', 1)]), (''python'', []), (''java'', []), (''go'', [])]"
    for p
    using assms(1)
    by (simp add: count_imports_def javascript_imports_def react_imports startswith_def split_def
        bump_def set_count_def dict_get_def del: set_simps)
  have "foldl count_imports
        [(''javascript'', [(''react'', 1)]), (''python'', []), (''java'', []), (''go'', [])]
        (file_patterns (scan_repo new_analyzer (react_repo ext)))
      = [(''javascript'', [(''react'', 1), (''react-dom'', 1)]), (''python'', []), (''java'', []), (''go'', [])]"
    unfolding react_samples [OF assms(1)] by (simp only: foldl_Cons foldl_Nil j c)
  then show ?thesis
    unfolding identify_dependencies_def Let_def m r by simp
qed

theorem react_scenario_dependencies_witness:
  "''js'' \<in> set [''js'', ''jsx'', ''ts'', ''tsx'']
   \<and> react_json_load react_manifest_text = Inr react_manifest
   \<and> identify_dependencies react_json_load (react_repo ''js'') (scan_repo new_analyzer (react_repo ''js''))
     = [(''javascript'', [(''react'', 1), (''react-dom'', 1)])]"
  using react_scenario_dependencies [of "''js''" react_json_load]
  by (simp add: react_json_load_def)

lemma setup_imports:
  "concat (map (\<lambda>pattern. re_findall [] pattern setup_py_text) python_import_patterns)
     = [''setup'', ''setuptools'']"
  by code_simp

lemma setup_extract:
  "extract_python_imports [\<lparr>path = p, content = setup_py_text\<rparr>] = [''setup'', ''setuptools'']"
  by (simp add: extract_python_imports_def list_set_def setup_imports)

lemma setup_lengths:
  "length setup_py_text = 28" "length requirements_text = 32"
  by (simp_all add: setup_py_text_def requirements_text_def)

lemma setup_samples:
  "file_patterns (scan_repo new_analyzer setup_repo) =
     [(''txt'', [\<lparr>path = ''requirements.txt'', content = requirements_text\<rparr>]),
      (''py'', [\<lparr>path = ''setup.py'', content = setup_py_text\<rparr>])]"
  "file_patterns (scan_repo new_analyzer py_repo_bare) =
     [(''txt'', [\<lparr>path = ''requirements.txt'', content = requirements_text\<rparr>])]"
  by (simp_all add: scan_eval setup_repo_def py_repo_bare_def requirements_txt_def setup_lengths)

lemma setup_python_imports:
  "python_imports [(''javascript'', []), (''python'', [(''flask'', 1), (''requests'', 1)]),
       (''java'', []), (''go'', [])] \<lparr>path = p, content = setup_py_text\<rparr>
     = [(''javascript'', []),
        (''python'', [(''flask'', 1), (''requests'', 1), (''setup'', 1), (''setuptools'', 1)]),
        (''java'', []), (''go'', [])]"
  by (simp add: python_imports_def setup_extract split_def startswith_def
      bump_def set_count_def dict_get_def)

lemma requirements_manifest:
  "foldl (python_manifest setup_repo) (javascript_manifest react_json_load setup_repo
       [(''javascript'', []), (''python'', []), (''java'', []), (''go'', [])]) python_req_files
     = [(''javascript'', []), (''python'', [(''flask'', 1), (''requests'', 1)]), (''java'', []), (''go'', [])]"
  "foldl (python_manifest py_repo_bare) (javascript_manifest react_json_load py_repo_bare
       [(''javascript'', []), (''python'', []), (''java'', []), (''go'', [])]) python_req_files
     = [(''javascript'', []), (''python'', [(''flask'', 1), (''requests'', 1)]), (''java'', []), (''go'', [])]"
  by (simp_all add: deps_eval setup_repo_def py_repo_bare_def requirements_txt_def
      requirements_text_def text_file_def)

text \<open>
  The claim as stated fails for \<open>setup.py\<close>. Take the project with its \<open>requirements.txt\<close>
  alone, and the same project with a \<open>setup.py\<close> that holds the line
  \<open>from setuptools import setup\<close>. Each is scanned by a new analyzer. The Python table of
  the first has \<open>flask\<close> and \<open>requests\<close>; that of the second has \<open>setup\<close> and
  \<open>setuptools\<close> as well: the content of \<open>setup.py\<close> has added packages and counts.
\<close>

theorem setup_py_contributes_counterexample:
  "identify_dependencies react_json_load py_repo_bare (scan_repo new_analyzer py_repo_bare)
     = [(''python'', [(''flask'', 1), (''requests'', 1)])]
   \<and> identify_dependencies react_json_load setup_repo (scan_repo new_analyzer setup_repo)
     = [(''python'', [(''flask'', 1), (''requests'', 1), (''setup'', 1), (''setuptools'', 1)])]
   \<and> open_text setup_repo ''requirements.txt'' = open_text py_repo_bare ''requirements.txt''
   \<and> open_text setup_repo ''package.json'' = open_text py_repo_bare ''package.json''
   \<and> open_text setup_repo ''setup.py'' = Some (Inr setup_py_text)"
proof -
  have t: "count_imports d (''txt'', fs) = d" for d fs
    by (simp add: count_imports_def)
  have y: "count_imports d (''py'', [f]) = python_imports d f" for d f
    by (simp add: count_imports_def)
  have "foldl count_imports
        [(''javascript'', []), (''python'', [(''flask'', 1), (''requests'', 1)]), (''java'', []), (''go'', [])]
        (file_patterns (scan_repo new_analyzer py_repo_bare))
      = [(''javascript'', []), (''python'', [(''flask'', 1), (''requests'', 1)]), (''java'', []), (''go'', [])]"
    unfolding setup_samples by (simp only: foldl_Cons foldl_Nil t)
  then have b: "identify_dependencies react_json_load py_repo_bare (scan_repo new_analyzer py_repo_bare)
     = [(''python'', [(''flask'', 1), (''requests'', 1)])]"
    unfolding identify_dependencies_def Let_def requirements_manifest by simp
  have "foldl count_imports
        [(''javascript'', []), (''python'', [(''flask'', 1), (''requests'', 1)]), (''java'', []), (''go'', [])]
        (file_patterns (scan_repo new_analyzer setup_repo))
      = [(''javascript'', []),
         (''python'', [(''flask'', 1), (''requests'', 1), (''setup'', 1), (''setuptools'', 1)]),
         (''java'', []), (''go'', [])]"
    unfolding setup_samples by (simp only: foldl_Cons foldl_Nil t y setup_python_imports)
  then have s: "identify_dependencies react_json_load setup_repo (scan_repo new_analyzer setup_repo)
     = [(''python'', [(''flask'', 1), (''requests'', 1), (''setup'', 1), (''setuptools'', 1)])]"
    unfolding identify_dependencies_def Let_def requirements_manifest by simp
  have o: "open_text setup_repo ''requirements.txt'' = open_text py_repo_bare ''requirements.txt''"
    "open_text setup_repo ''package.json'' = open_text py_repo_bare ''package.json''"
    "open_text setup_repo ''setup.py'' = Some (Inr setup_py_text)"
    by (simp_all add: setup_repo_def py_repo_bare_def requirements_txt_def text_file_def)
  from b s o show ?thesis by (intro conjI)
qed

end
